theory Spec2Isabelle
  imports Complex_Main "HOL-Library.Multiset"
begin

section \<open>JSON values\<close>

text \<open>
  The client and the HTTP handlers exchange JSON. A JavaScript number read from JSON is a
  finite double, hence a rational; only comparisons are made on numbers, so \<open>rat\<close> covers
  them. An object is the list of its own properties; \<open>null\<close> is \<open>JNull\<close>.
\<close>

datatype json =
    JNull
  | JBool bool
  | JNum rat
  | JStr string
  | JArr "json list"
  | JObj "(string \<times> json) list"

text \<open>\<open>field v k\<close> is the property read \<open>v.k\<close>; \<open>None\<close> stands for \<open>undefined\<close>.\<close>

fun field :: "json \<Rightarrow> string \<Rightarrow> json option" where
  "field (JObj kvs) k = map_of kvs k"
| "field v k = None"

section \<open>Connectivity and the diagnosis resolver (client/src/lib/offline.ts, DiagnosisPage.tsx)\<close>

record VitalSigns =
  temperature :: "rat option"
  bloodPressure :: "string option"
  heartRate :: "rat option"
  respiratoryRate :: "rat option"
  oxygenSaturation :: "rat option"

text \<open>\<open>OfflineDiagnosisInput\<close>: the payload built by \<open>handleAnalyze\<close>.\<close>

record OfflineDiagnosisInput =
  in_patientId :: "string option"
  in_symptoms :: "string list"
  in_vitalSigns :: "VitalSigns option"
  in_patientAge :: rat
  in_patientGender :: string
  in_patientWeight :: "rat option"
  in_language :: string

text \<open>
  \<open>isOnline\<close>: the argument is \<open>None\<close> when \<open>navigator\<close> is undefined, otherwise
  \<open>navigator.onLine\<close>.
\<close>

fun isOnline :: "bool option \<Rightarrow> bool" where
  "isOnline None = True"
| "isOnline (Some onLine) = onLine"

text \<open>
  What \<open>fetch\<close> to the local service can do: reject (transport error), or resolve to a
  response with a status and a body. The body is given by what \<open>res.json()\<close> makes of
  it: it rejects (\<open>NotJson\<close>), or yields \<open>null\<close> or a scalar (\<open>Scalar\<close>, on which the
  \<open>in\<close> operator throws a TypeError), or yields an object. The service answers with
  an object; array bodies are not part of the model.
\<close>

datatype reply_body = NotJson | Scalar | Object "(string \<times> json) list"

datatype fetch_result = Rejected | Response nat reply_body

definition ok :: "nat \<Rightarrow> bool" where
  "ok status = (200 \<le> status \<and> status \<le> 299)"

text \<open>
  The two backends are the environment of the resolver. \<open>primary\<close> is what
  \<open>apiRequest("POST", "/api/diagnose", data)\<close> does (\<open>None\<close>: it throws); \<open>apiRequest\<close>
  itself lives in client/src/lib/queryClient and is taken as a parameter. \<open>local_nlp\<close> is
  the outcome of \<open>fetch("http://localhost:8000/analyze", ...)\<close>. Every call is counted, as a
  mock would count it.
\<close>

record backends =
  primary :: "OfflineDiagnosisInput \<Rightarrow> json option"
  local_nlp :: "OfflineDiagnosisInput \<Rightarrow> fetch_result"

record call_counts =
  primary_calls :: nat
  fallback_calls :: nat

definition apiRequest ::
  "backends \<Rightarrow> OfflineDiagnosisInput \<Rightarrow> call_counts \<Rightarrow> json option \<times> call_counts" where
  "apiRequest b data c = (primary b data, c\<lparr>primary_calls := primary_calls c + 1\<rparr>)"

definition fetch_analyze ::
  "backends \<Rightarrow> OfflineDiagnosisInput \<Rightarrow> call_counts \<Rightarrow> fetch_result \<times> call_counts" where
  "fetch_analyze b data c = (local_nlp b data, c\<lparr>fallback_calls := fallback_calls c + 1\<rparr>)"

text \<open>The object literal returned by the \<open>catch\<close> block of \<open>diagnoseOffline\<close>.\<close>

definition unavailable_result :: "OfflineDiagnosisInput \<Rightarrow> json" where
  "unavailable_result input = JObj
     [(''mode'', JStr ''offline''),
      (''patientId'', JStr (case in_patientId input of None \<Rightarrow> '''' | Some p \<Rightarrow> p)),
      (''primaryDiagnosis'', JStr ''Offline diagnosis service unavailable''),
      (''differentialDiagnoses'', JArr []),
      (''treatmentProtocol'', JNull),
      (''requiresReferral'', JBool False),
      (''referralReason'', JStr ''Error in local NLP service''),
      (''knowledgeSnippets'', JArr [])]"

text \<open>
  \<open>diagnoseOffline\<close>: one \<open>fetch\<close>; a rejected fetch, a status outside 2xx, a body that is
  not JSON and a body on which \<open>"mode" in data\<close> throws all end in the \<open>catch\<close> block.
  Otherwise the body is returned, with \<open>mode = "offline"\<close> added only when it has no
  \<open>mode\<close> property of its own.
\<close>

definition diagnoseOffline ::
  "backends \<Rightarrow> OfflineDiagnosisInput \<Rightarrow> call_counts \<Rightarrow> json \<times> call_counts" where
  "diagnoseOffline b input c =
     (case fetch_analyze b input c of
        (Rejected, c') \<Rightarrow> (unavailable_result input, c')
      | (Response status body, c') \<Rightarrow>
          if \<not> ok status then (unavailable_result input, c')
          else (case body of
                  NotJson \<Rightarrow> (unavailable_result input, c')
                | Scalar \<Rightarrow> (unavailable_result input, c')
                | Object kvs \<Rightarrow>
                    if map_of kvs ''mode'' = None
                    then (JObj (kvs @ [(''mode'', JStr ''offline'')]), c')
                    else (JObj kvs, c')))"

text \<open>
  \<open>analyzeMutation.mutationFn\<close>; \<open>online\<close> is the value of \<open>isOnline()\<close> at the call.
\<close>

definition mutationFn ::
  "backends \<Rightarrow> bool \<Rightarrow> OfflineDiagnosisInput \<Rightarrow> call_counts \<Rightarrow> json \<times> call_counts" where
  "mutationFn b online data c =
     (if \<not> online then diagnoseOffline b data c
      else (case apiRequest b data c of
              (Some result, c1) \<Rightarrow> (result, c1)
            | (None, c1) \<Rightarrow> diagnoseOffline b data c1))"

text \<open>
  The only reader of the provenance tag is the toast in \<open>onSuccess\<close>:
  \<open>data && data.mode === "offline"\<close>.
\<close>

definition completed_offline :: "json \<Rightarrow> bool" where
  "completed_offline data = (field data ''mode'' = Some (JStr ''offline''))"

text \<open>The fallback is unreachable: no usable 2xx JSON answer comes back.\<close>

fun unreachable :: "fetch_result \<Rightarrow> bool" where
  "unreachable Rejected = True"
| "unreachable (Response status NotJson) = True"
| "unreachable (Response status body) = (\<not> ok status)"

section \<open>Shared schema (shared/schema.ts)\<close>

record DifferentialDiagnosis =
  condition :: string
  confidence :: rat
  reasoning :: string

record Medication =
  med_name :: string
  dosage :: string
  frequency :: string
  duration :: string

record TreatmentProtocol =
  medications :: "Medication list"
  procedures :: "string list"
  lifestyle :: "string list"

text \<open>
  The gateway is compiled without type checking (\<open>// @ts-nocheck\<close>) and its casts do
  nothing at run time, so a field that travels as JSON is a JSON value here, whatever
  the schema says of it. \<open>truthy\<close> is JavaScript's truth test and \<open>nullish\<close> the
  operator \<open>??\<close>, on a value that may be \<open>undefined\<close> (\<open>None\<close>).
\<close>

fun truthy :: "json \<Rightarrow> bool" where
  "truthy JNull = False"
| "truthy (JBool b) = b"
| "truthy (JNum n) = (n \<noteq> 0)"
| "truthy (JStr s) = (s \<noteq> [])"
| "truthy (JArr vs) = True"
| "truthy (JObj kvs) = True"

fun nullish :: "json option \<Rightarrow> json \<Rightarrow> json" where
  "nullish None dflt = dflt"
| "nullish (Some JNull) dflt = dflt"
| "nullish (Some v) dflt = v"


text \<open>\<open>Diagnosis\<close>: what callers of the gateway see.\<close>

record Diagnosis =
  d_id :: string
  d_patientId :: string
  d_symptoms :: json
  d_vitalSigns :: json
  d_primaryDiagnosis :: string
  d_differentialDiagnoses :: json
  d_treatmentProtocol :: json
  d_requiresReferral :: bool
  d_referralReason :: "string option"
  d_language :: string
  d_createdAt :: nat

text \<open>
  \<open>InsertDiagnosis\<close>, the argument of \<open>createDiagnosis\<close>. The four fields stored as
  JSON text are JSON values, \<open>None\<close> standing for \<open>undefined\<close>; a scalar field that
  \<open>createDiagnosis\<close> guards with \<open>??\<close> or a truth test is optional, \<open>None\<close>
  standing for \<open>undefined\<close> or \<open>null\<close>.
\<close>

record InsertDiagnosis =
  ins_patientId :: string
  ins_symptoms :: "json option"
  ins_vitalSigns :: "json option"
  ins_primaryDiagnosis :: string
  ins_differentialDiagnoses :: "json option"
  ins_treatmentProtocol :: "json option"
  ins_requiresReferral :: "bool option"
  ins_referralReason :: "string option"
  ins_language :: "string option"

record KnowledgeBase =
  kb_id :: string
  kb_symptoms :: "string list"
  kb_ageGroup :: string
  kb_gender :: string
  kb_diagnosis :: string
  kb_confidence :: rat
  kb_outcome :: "string option"
  kb_createdAt :: nat

text \<open>\<open>Omit<KnowledgeBase, "id" | "createdAt">\<close>, the argument of \<open>addKnowledgeEntry\<close>.\<close>

record KnowledgeEntry =
  e_symptoms :: "string list option"
  e_ageGroup :: string
  e_gender :: string
  e_diagnosis :: string
  e_confidence :: rat
  e_outcome :: "string option"

text \<open>\<open>SymptomAnalysis\<close>, the output type of \<open>symptomAnalysisSchema\<close>.\<close>

record SymptomAnalysis =
  sa_patientId :: string
  sa_symptoms :: "string list"
  sa_vitalSigns :: "VitalSigns option"
  sa_patientAge :: rat
  sa_patientGender :: string
  sa_patientWeight :: "rat option"
  sa_language :: string

section \<open>The SQLite database (server/db.ts)\<close>

text \<open>
  A row is what \<open>SELECT *\<close> yields. Times are milliseconds since the epoch; the ISO text
  written by \<open>nowIso()\<close> and the \<open>Date\<close> read back from it denote the same instant.
  A TEXT column of the diagnoses table that holds JSON is \<open>None\<close> for SQL NULL and
  otherwise a text, given by what \<open>JSON.parse\<close> makes of it: \<open>JsonText v\<close> is a text
  that reads as the value \<open>v\<close> (\<open>JSON.stringify v\<close> is one), \<open>EmptyText\<close> is the empty
  text, \<open>Malformed\<close> a text that is not empty and not JSON. The columns that
  \<open>rowToDiagnosis\<close> guards are optional even where the table says NOT NULL. In the
  knowledge_base table the symptoms column is given by the list its text denotes.
\<close>

datatype sql_text = JsonText json | EmptyText | Malformed

datatype js_error = SyntaxError

record patient_row =
  p_id :: string
  p_name :: string
  p_age :: rat
  p_gender :: string
  p_weight :: "rat option"
  p_contactNumber :: "string option"
  p_address :: "string option"
  p_createdAt :: nat

record diagnosis_row =
  row_id :: string
  row_patientId :: string
  row_symptoms :: "sql_text option"
  row_vitalSigns :: "sql_text option"
  row_primaryDiagnosis :: string
  row_differentialDiagnoses :: "sql_text option"
  row_treatmentProtocol :: "sql_text option"
  row_requiresReferral :: "int option"
  row_referralReason :: "string option"
  row_language :: "string option"
  row_createdAt :: nat

record knowledge_row =
  kr_id :: string
  kr_symptoms :: "string list option"
  kr_ageGroup :: string
  kr_gender :: string
  kr_diagnosis :: string
  kr_confidence :: rat
  kr_outcome :: "string option"
  kr_createdAt :: nat

text \<open>The three tables, each in rowid order.\<close>

record database =
  patients :: "patient_row list"
  diagnoses :: "diagnosis_row list"
  knowledge_base :: "knowledge_row list"

text \<open>
  What a storage call takes from its surroundings: the value of \<open>newId()\<close> (a random
  UUID), the value of \<open>nowIso()\<close>, and whether the engine fails the statement for a reason
  of its own (disk full, I/O error).
\<close>

record call_env =
  uuid :: string
  clock :: nat
  disk_fault :: bool

datatype sqlite_error =
    SQLITE_IOERR
  | SQLITE_CONSTRAINT_PRIMARYKEY
  | SQLITE_CONSTRAINT_FOREIGNKEY

text \<open>
  \<open>INSERT INTO diagnoses\<close> under the table definition of db.ts with
  \<open>foreign_keys = ON\<close>: \<open>id\<close> is the primary key and \<open>patientId\<close> references
  \<open>patients(id)\<close>. A failed statement throws and leaves the table as it was.
\<close>

definition insert_diagnosis ::
  "bool \<Rightarrow> database \<Rightarrow> diagnosis_row \<Rightarrow> sqlite_error + database" where
  "insert_diagnosis fault db row =
     (if fault then Inl SQLITE_IOERR
      else if row_id row \<in> set (map row_id (diagnoses db)) then Inl SQLITE_CONSTRAINT_PRIMARYKEY
      else if row_patientId row \<notin> set (map p_id (patients db)) then Inl SQLITE_CONSTRAINT_FOREIGNKEY
      else Inr (db\<lparr>diagnoses := diagnoses db @ [row]\<rparr>))"

definition insert_knowledge ::
  "bool \<Rightarrow> database \<Rightarrow> knowledge_row \<Rightarrow> sqlite_error + database" where
  "insert_knowledge fault db row =
     (if fault then Inl SQLITE_IOERR
      else if kr_id row \<in> set (map kr_id (knowledge_base db)) then Inl SQLITE_CONSTRAINT_PRIMARYKEY
      else Inr (db\<lparr>knowledge_base := knowledge_base db @ [row]\<rparr>))"

text \<open>
  \<open>ORDER BY datetime(createdAt) DESC\<close>: \<open>datetime\<close> drops the milliseconds. SQL leaves
  the order of rows of the same second open; they stay in rowid order here.
\<close>

definition newest_first :: "diagnosis_row list \<Rightarrow> diagnosis_row list" where
  "newest_first rows = sort_key (\<lambda>r. - int (row_createdAt r div 1000)) rows"

section \<open>The record gateway (server/storage.ts)\<close>

text \<open>
  \<open>column ? JSON.parse(column) : dflt\<close>: NULL and the empty text are false;
  \<open>JSON.parse\<close> throws a SyntaxError on a text that is not JSON.
\<close>

fun parse_or :: "sql_text option \<Rightarrow> json \<Rightarrow> js_error + json" where
  "parse_or None dflt = Inr dflt"
| "parse_or (Some EmptyText) dflt = Inr dflt"
| "parse_or (Some (JsonText v)) dflt = Inr v"
| "parse_or (Some Malformed) dflt = Inl SyntaxError"

definition rowToDiagnosis :: "diagnosis_row \<Rightarrow> js_error + Diagnosis" where
  "rowToDiagnosis row =
     (case parse_or (row_vitalSigns row) JNull of
        Inl e \<Rightarrow> Inl e
      | Inr vitalSigns \<Rightarrow>
     (case parse_or (row_differentialDiagnoses row) (JArr []) of
        Inl e \<Rightarrow> Inl e
      | Inr differentialDiagnoses \<Rightarrow>
     (case parse_or (row_treatmentProtocol row) JNull of
        Inl e \<Rightarrow> Inl e
      | Inr treatmentProtocol \<Rightarrow>
     (case parse_or (row_symptoms row) (JArr []) of
        Inl e \<Rightarrow> Inl e
      | Inr symptoms \<Rightarrow>
          Inr \<lparr>d_id = row_id row,
               d_patientId = row_patientId row,
               d_symptoms = symptoms,
               d_vitalSigns = vitalSigns,
               d_primaryDiagnosis = row_primaryDiagnosis row,
               d_differentialDiagnoses = differentialDiagnoses,
               d_treatmentProtocol = treatmentProtocol,
               d_requiresReferral =
                 (case row_requiresReferral row of Some n \<Rightarrow> n \<noteq> 0 | None \<Rightarrow> False),
               d_referralReason = row_referralReason row,
               d_language = (case row_language row of Some l \<Rightarrow> l | None \<Rightarrow> ''en''),
               d_createdAt = row_createdAt row\<rparr>))))"


text \<open>\<open>rows.map(rowToDiagnosis)\<close>: the first row that throws ends the call.\<close>

fun map_rows :: "('a \<Rightarrow> js_error + 'b) \<Rightarrow> 'a list \<Rightarrow> js_error + 'b list" where
  "map_rows f [] = Inr []"
| "map_rows f (x # xs) =
     (case f x of
        Inl e \<Rightarrow> Inl e
      | Inr y \<Rightarrow> (case map_rows f xs of Inl e \<Rightarrow> Inl e | Inr ys \<Rightarrow> Inr (y # ys)))"

definition getDiagnosis :: "database \<Rightarrow> string \<Rightarrow> js_error + Diagnosis option" where
  "getDiagnosis db ident =
     (case find (\<lambda>r. row_id r = ident) (diagnoses db) of
        Some row \<Rightarrow> (case rowToDiagnosis row of Inl e \<Rightarrow> Inl e | Inr d \<Rightarrow> Inr (Some d))
      | None \<Rightarrow> Inr None)"


definition getAllDiagnoses :: "database \<Rightarrow> js_error + Diagnosis list" where
  "getAllDiagnoses db = map_rows rowToDiagnosis (newest_first (diagnoses db))"

text \<open>
  \<open>createDiagnosis\<close>. \<open>createDiagnosis_row\<close> is the row bound to the INSERT and
  \<open>createDiagnosis_record\<close> the object returned after it, for \<open>id = newId()\<close> and
  \<open>createdAtIso = nowIso()\<close>. The result is the error thrown by the INSERT or the
  returned record, together with the database afterwards.
\<close>

text \<open>\<open>x ? JSON.stringify(x) : null\<close>.\<close>

fun stringify_if_truthy :: "json option \<Rightarrow> sql_text option" where
  "stringify_if_truthy None = None"
| "stringify_if_truthy (Some v) = (if truthy v then Some (JsonText v) else None)"

text \<open>
  A value that \<open>x ? JSON.stringify(x) : null\<close> does not turn into NULL unless it is
  \<open>undefined\<close> or \<open>null\<close> already.
\<close>

fun survives :: "json option \<Rightarrow> bool" where
  "survives None = True"
| "survives (Some v) = (v = JNull \<or> truthy v)"

definition createDiagnosis_row :: "string \<Rightarrow> nat \<Rightarrow> InsertDiagnosis \<Rightarrow> diagnosis_row" where
  "createDiagnosis_row ident createdAtIso insertDiagnosis =
     \<lparr>row_id = ident,
      row_patientId = ins_patientId insertDiagnosis,
      row_symptoms = Some (JsonText (nullish (ins_symptoms insertDiagnosis) (JArr []))),
      row_vitalSigns = stringify_if_truthy (ins_vitalSigns insertDiagnosis),
      row_primaryDiagnosis = ins_primaryDiagnosis insertDiagnosis,
      row_differentialDiagnoses = stringify_if_truthy (ins_differentialDiagnoses insertDiagnosis),
      row_treatmentProtocol = stringify_if_truthy (ins_treatmentProtocol insertDiagnosis),
      row_requiresReferral =
        Some (if ins_requiresReferral insertDiagnosis = Some True then 1 else 0),
      row_referralReason = ins_referralReason insertDiagnosis,
      row_language =
        Some (case ins_language insertDiagnosis of Some l \<Rightarrow> l | None \<Rightarrow> ''en''),
      row_createdAt = createdAtIso\<rparr>"

definition createDiagnosis_record :: "string \<Rightarrow> nat \<Rightarrow> InsertDiagnosis \<Rightarrow> Diagnosis" where
  "createDiagnosis_record ident createdAtIso insertDiagnosis =
     \<lparr>d_id = ident,
      d_patientId = ins_patientId insertDiagnosis,
      d_symptoms = nullish (ins_symptoms insertDiagnosis) (JArr []),
      d_vitalSigns = nullish (ins_vitalSigns insertDiagnosis) JNull,
      d_primaryDiagnosis = ins_primaryDiagnosis insertDiagnosis,
      d_differentialDiagnoses = nullish (ins_differentialDiagnoses insertDiagnosis) (JArr []),
      d_treatmentProtocol = nullish (ins_treatmentProtocol insertDiagnosis) JNull,
      d_requiresReferral = (ins_requiresReferral insertDiagnosis = Some True),
      d_referralReason = ins_referralReason insertDiagnosis,
      d_language = (case ins_language insertDiagnosis of Some l \<Rightarrow> l | None \<Rightarrow> ''en''),
      d_createdAt = createdAtIso\<rparr>"

definition createDiagnosis ::
  "call_env \<Rightarrow> database \<Rightarrow> InsertDiagnosis \<Rightarrow> (sqlite_error + Diagnosis) \<times> database" where
  "createDiagnosis env db insertDiagnosis =
     (let ident = uuid env;
          createdAtIso = clock env
      in case insert_diagnosis (disk_fault env) db
                (createDiagnosis_row ident createdAtIso insertDiagnosis) of
           Inl err \<Rightarrow> (Inl err, db)
         | Inr db' \<Rightarrow> (Inr (createDiagnosis_record ident createdAtIso insertDiagnosis), db'))"

text \<open>\<open>addKnowledgeEntry\<close>, in the same way.\<close>

definition addKnowledgeEntry_row :: "string \<Rightarrow> nat \<Rightarrow> KnowledgeEntry \<Rightarrow> knowledge_row" where
  "addKnowledgeEntry_row ident createdAtIso entry =
     \<lparr>kr_id = ident,
      kr_symptoms = Some (case e_symptoms entry of Some v \<Rightarrow> v | None \<Rightarrow> []),
      kr_ageGroup = e_ageGroup entry,
      kr_gender = e_gender entry,
      kr_diagnosis = e_diagnosis entry,
      kr_confidence = e_confidence entry,
      kr_outcome = e_outcome entry,
      kr_createdAt = createdAtIso\<rparr>"

definition addKnowledgeEntry_record :: "string \<Rightarrow> nat \<Rightarrow> KnowledgeEntry \<Rightarrow> KnowledgeBase" where
  "addKnowledgeEntry_record ident createdAtIso entry =
     \<lparr>kb_id = ident,
      kb_symptoms = (case e_symptoms entry of Some v \<Rightarrow> v | None \<Rightarrow> []),
      kb_ageGroup = e_ageGroup entry,
      kb_gender = e_gender entry,
      kb_diagnosis = e_diagnosis entry,
      kb_confidence = e_confidence entry,
      kb_outcome = e_outcome entry,
      kb_createdAt = createdAtIso\<rparr>"

definition addKnowledgeEntry ::
  "call_env \<Rightarrow> database \<Rightarrow> KnowledgeEntry \<Rightarrow> (sqlite_error + KnowledgeBase) \<times> database" where
  "addKnowledgeEntry env db entry =
     (let ident = uuid env;
          createdAtIso = clock env
      in case insert_knowledge (disk_fault env) db (addKnowledgeEntry_row ident createdAtIso entry) of
           Inl err \<Rightarrow> (Inl err, db)
         | Inr db' \<Rightarrow> (Inr (addKnowledgeEntry_record ident createdAtIso entry), db'))"






section \<open>Request validation (symptomAnalysisSchema)\<close>

text \<open>
  \<open>schema.parse(body)\<close> either returns the validated value or throws a \<open>ZodError\<close> with
  every issue found. An issue has a code and the path of the offending field; \<open>message\<close>
  is recorded where the schema sets one.
\<close>

datatype issue_code = invalid_type | too_small | invalid_enum_value

datatype path_seg = Key string | Index nat

record ZodIssue =
  code :: issue_code
  path :: "path_seg list"
  message :: "string option"

type_synonym 'a parsed = "ZodIssue list + 'a"

definition issue :: "issue_code \<Rightarrow> path_seg list \<Rightarrow> ZodIssue" where
  "issue c p = \<lparr>code = c, path = p, message = None\<rparr>"

text \<open>Two fields are checked independently and their issues collected.\<close>

fun both :: "'a parsed \<Rightarrow> 'b parsed \<Rightarrow> ('a \<times> 'b) parsed" where
  "both (Inr a) (Inr b) = Inr (a, b)"
| "both (Inl e) (Inr b) = Inl e"
| "both (Inr a) (Inl e) = Inl e"
| "both (Inl e1) (Inl e2) = Inl (e1 @ e2)"

text \<open>\<open>z.string()\<close>, \<open>z.number()\<close>; the argument is \<open>None\<close> when the key is missing.\<close>

fun z_string :: "path_seg list \<Rightarrow> json option \<Rightarrow> string parsed" where
  "z_string p (Some (JStr s)) = Inr s"
| "z_string p v = Inl [issue invalid_type p]"

fun z_number :: "path_seg list \<Rightarrow> json option \<Rightarrow> rat parsed" where
  "z_number p (Some (JNum n)) = Inr n"
| "z_number p v = Inl [issue invalid_type p]"

text \<open>\<open>.optional()\<close>: a missing key is accepted, \<open>null\<close> is not.\<close>

fun z_optional ::
  "(path_seg list \<Rightarrow> json option \<Rightarrow> 'a parsed) \<Rightarrow> path_seg list \<Rightarrow> json option \<Rightarrow> 'a option parsed" where
  "z_optional f p None = Inr None"
| "z_optional f p (Some v) = (case f p (Some v) of Inl e \<Rightarrow> Inl e | Inr a \<Rightarrow> Inr (Some a))"

text \<open>\<open>z.array(z.string()).min(1, "At least one symptom is required")\<close>.\<close>

fun z_elements :: "path_seg list \<Rightarrow> nat \<Rightarrow> json list \<Rightarrow> string list parsed" where
  "z_elements p i [] = Inr []"
| "z_elements p i (v # vs) =
     (case both (z_string (p @ [Index i]) (Some v)) (z_elements p (Suc i) vs) of
        Inl e \<Rightarrow> Inl e
      | Inr (s, ss) \<Rightarrow> Inr (s # ss))"

fun z_symptoms :: "path_seg list \<Rightarrow> json option \<Rightarrow> string list parsed" where
  "z_symptoms p (Some (JArr vs)) =
     (case both
        (if length vs < 1
         then Inl [\<lparr>code = too_small, path = p,
                    message = Some ''At least one symptom is required''\<rparr>]
         else Inr ())
        (z_elements p 0 vs) of
        Inl e \<Rightarrow> Inl e
      | Inr (u, ss) \<Rightarrow> Inr ss)"
| "z_symptoms p v = Inl [issue invalid_type p]"

text \<open>\<open>z.enum(["en", "hi", "ta", "te", "bn"]).default("en")\<close>.\<close>

definition languages :: "string list" where
  "languages = [''en'', ''hi'', ''ta'', ''te'', ''bn'']"

fun z_language :: "path_seg list \<Rightarrow> json option \<Rightarrow> string parsed" where
  "z_language p None = Inr ''en''"
| "z_language p (Some (JStr s)) =
     (if s \<in> set languages then Inr s else Inl [issue invalid_enum_value p])"
| "z_language p (Some v) = Inl [issue invalid_type p]"

fun z_vitalSigns :: "path_seg list \<Rightarrow> json option \<Rightarrow> VitalSigns parsed" where
  "z_vitalSigns p (Some (JObj kvs)) =
     (case both (z_optional z_number (p @ [Key ''temperature'']) (map_of kvs ''temperature''))
          (both (z_optional z_string (p @ [Key ''bloodPressure'']) (map_of kvs ''bloodPressure''))
          (both (z_optional z_number (p @ [Key ''heartRate'']) (map_of kvs ''heartRate''))
          (both (z_optional z_number (p @ [Key ''respiratoryRate'']) (map_of kvs ''respiratoryRate''))
                (z_optional z_number (p @ [Key ''oxygenSaturation'']) (map_of kvs ''oxygenSaturation''))))) of
        Inl e \<Rightarrow> Inl e
      | Inr (t, bp, hr, rr, os) \<Rightarrow>
          Inr \<lparr>temperature = t, bloodPressure = bp, heartRate = hr,
               respiratoryRate = rr, oxygenSaturation = os\<rparr>)"
| "z_vitalSigns p v = Inl [issue invalid_type p]"

text \<open>\<open>symptomAnalysisSchema.parse\<close>; unknown keys of the body are dropped.\<close>

fun symptomAnalysisSchema_parse :: "json \<Rightarrow> SymptomAnalysis parsed" where
  "symptomAnalysisSchema_parse (JObj kvs) =
     (case both (z_string [Key ''patientId''] (map_of kvs ''patientId''))
          (both (z_symptoms [Key ''symptoms''] (map_of kvs ''symptoms''))
          (both (z_optional z_vitalSigns [Key ''vitalSigns''] (map_of kvs ''vitalSigns''))
          (both (z_number [Key ''patientAge''] (map_of kvs ''patientAge''))
          (both (z_string [Key ''patientGender''] (map_of kvs ''patientGender''))
          (both (z_optional z_number [Key ''patientWeight''] (map_of kvs ''patientWeight''))
                (z_language [Key ''language''] (map_of kvs ''language''))))))) of
        Inl e \<Rightarrow> Inl e
      | Inr (pid, syms, vs, age, gender, weight, lang) \<Rightarrow>
          Inr \<lparr>sa_patientId = pid, sa_symptoms = syms, sa_vitalSigns = vs,
               sa_patientAge = age, sa_patientGender = gender,
               sa_patientWeight = weight, sa_language = lang\<rparr>)"
| "symptomAnalysisSchema_parse v = Inl [issue invalid_type []]"

section \<open>The analyze endpoint: POST /api/diagnose (server/routes.ts)\<close>

text \<open>
  \<open>fastApiResponse.data\<close>, typed by the fields the handler reads and by the column types
  it passes them to; a field read through \<open>??\<close> or \<open>?.\<close> is optional.
\<close>

record AiDiagnosis =
  ai_primaryDiagnosis :: string
  ai_differentialDiagnoses :: "DifferentialDiagnosis list option"
  ai_treatmentProtocol :: "TreatmentProtocol option"
  ai_requiresReferral :: "bool option"
  ai_referralReason :: "string option"

text \<open>The server: its database and the number of calls made to the NLP service.\<close>

record server =
  sqlite :: database
  nlp_calls :: nat

datatype http_response =
    Created Diagnosis
  | BadRequest string "ZodIssue list"
  | InternalError string

definition ageGroup_of :: "rat \<Rightarrow> string" where
  "ageGroup_of patientAge =
     (if patientAge < 18 then ''child'' else if patientAge < 60 then ''adult'' else ''senior'')"

text \<open>\<open>aiDiagnosis.differentialDiagnoses?.[0]?.confidence ?? 100\<close>.\<close>

definition top_confidence :: "AiDiagnosis \<Rightarrow> rat" where
  "top_confidence aiDiagnosis =
     (case ai_differentialDiagnoses aiDiagnosis of
        Some (first # rest) \<Rightarrow> confidence first
      | Some [] \<Rightarrow> 100
      | None \<Rightarrow> 100)"

text \<open>
  The JSON values of what the handler passes to \<open>createDiagnosis\<close>: the validated
  symptoms and vital signs (an object with the keys that were given), and the parts of the
  NLP answer.
\<close>

fun given :: "string \<Rightarrow> ('a \<Rightarrow> json) \<Rightarrow> 'a option \<Rightarrow> (string \<times> json) list" where
  "given k f None = []"
| "given k f (Some x) = [(k, f x)]"

definition vitalSigns_json :: "VitalSigns \<Rightarrow> json" where
  "vitalSigns_json vs = JObj
     (given ''temperature'' JNum (temperature vs) @
      given ''bloodPressure'' JStr (bloodPressure vs) @
      given ''heartRate'' JNum (heartRate vs) @
      given ''respiratoryRate'' JNum (respiratoryRate vs) @
      given ''oxygenSaturation'' JNum (oxygenSaturation vs))"

definition differential_json :: "DifferentialDiagnosis \<Rightarrow> json" where
  "differential_json dd = JObj
     [(''condition'', JStr (condition dd)), (''confidence'', JNum (confidence dd)),
      (''reasoning'', JStr (reasoning dd))]"

definition medication_json :: "Medication \<Rightarrow> json" where
  "medication_json m = JObj
     [(''name'', JStr (med_name m)), (''dosage'', JStr (dosage m)),
      (''frequency'', JStr (frequency m)), (''duration'', JStr (duration m))]"

definition protocol_json :: "TreatmentProtocol \<Rightarrow> json" where
  "protocol_json tp = JObj
     [(''medications'', JArr (map medication_json (medications tp))),
      (''procedures'', JArr (map JStr (procedures tp))),
      (''lifestyle'', JArr (map JStr (lifestyle tp)))]"

definition diagnosis_fields :: "SymptomAnalysis \<Rightarrow> AiDiagnosis \<Rightarrow> InsertDiagnosis" where
  "diagnosis_fields validatedData aiDiagnosis =
     \<lparr>ins_patientId = sa_patientId validatedData,
      ins_symptoms = Some (JArr (map JStr (sa_symptoms validatedData))),
      ins_vitalSigns =
        Some (case sa_vitalSigns validatedData of Some vs \<Rightarrow> vitalSigns_json vs | None \<Rightarrow> JNull),
      ins_primaryDiagnosis = ai_primaryDiagnosis aiDiagnosis,
      ins_differentialDiagnoses =
        (case ai_differentialDiagnoses aiDiagnosis of
           Some dds \<Rightarrow> Some (JArr (map differential_json dds))
         | None \<Rightarrow> None),
      ins_treatmentProtocol =
        Some (case ai_treatmentProtocol aiDiagnosis of Some tp \<Rightarrow> protocol_json tp | None \<Rightarrow> JNull),
      ins_requiresReferral =
        Some (case ai_requiresReferral aiDiagnosis of Some r \<Rightarrow> r | None \<Rightarrow> False),
      ins_referralReason = ai_referralReason aiDiagnosis,
      ins_language = Some (sa_language validatedData)\<rparr>"

definition knowledge_fields :: "SymptomAnalysis \<Rightarrow> AiDiagnosis \<Rightarrow> KnowledgeEntry" where
  "knowledge_fields validatedData aiDiagnosis =
     \<lparr>e_symptoms = Some (sa_symptoms validatedData),
      e_ageGroup = ageGroup_of (sa_patientAge validatedData),
      e_gender = sa_patientGender validatedData,
      e_diagnosis = ai_primaryDiagnosis aiDiagnosis,
      e_confidence = top_confidence aiDiagnosis,
      e_outcome = None\<rparr>"

text \<open>
  The handler. \<open>nlp\<close> is the FastAPI service behind \<open>axios.post\<close> (\<open>None\<close>: the call
  throws: timeout, status outside 2xx, transport error); \<open>envD\<close> and \<open>envK\<close> are the
  surroundings of the two storage calls. Every exception ends in the one \<open>catch\<close> block.
\<close>

definition post_api_diagnose ::
  "(SymptomAnalysis \<Rightarrow> AiDiagnosis option) \<Rightarrow> call_env \<Rightarrow> call_env \<Rightarrow> json \<Rightarrow> server
     \<Rightarrow> http_response \<times> server" where
  "post_api_diagnose nlp envD envK body s =
     (case symptomAnalysisSchema_parse body of
        Inl errors \<Rightarrow> (BadRequest ''Invalid diagnosis data'' errors, s)
      | Inr validatedData \<Rightarrow>
          (let s1 = s\<lparr>nlp_calls := nlp_calls s + 1\<rparr> in
           case nlp validatedData of
             None \<Rightarrow> (InternalError ''NLP service unavailable'', s1)
           | Some aiDiagnosis \<Rightarrow>
               (case createDiagnosis envD (sqlite s1) (diagnosis_fields validatedData aiDiagnosis) of
                  (Inl err, db1) \<Rightarrow> (InternalError ''NLP service unavailable'', s1\<lparr>sqlite := db1\<rparr>)
                | (Inr diagnosis, db1) \<Rightarrow>
                    (case addKnowledgeEntry envK db1 (knowledge_fields validatedData aiDiagnosis) of
                       (Inl err, db2) \<Rightarrow>
                         (InternalError ''NLP service unavailable'', s1\<lparr>sqlite := db2\<rparr>)
                     | (Inr entry, db2) \<Rightarrow> (Created diagnosis, s1\<lparr>sqlite := db2\<rparr>)))))"

section \<open>The snapshot store (client/src/lib/offline.ts)\<close>

text \<open>
  \<open>localStorage\<close> maps keys to texts. A text is given by what it denotes:
  \<open>Stringified v\<close> is the text \<open>JSON.stringify(v)\<close>, which \<open>JSON.parse\<close> reads back as
  \<open>v\<close>; \<open>IsoString t\<close> is \<open>toISOString()\<close> of the instant \<open>t\<close>; \<open>Garbled\<close> is any text
  that \<open>JSON.parse\<close> rejects, the empty text included. \<open>setItem\<close> throws when the
  browser refuses the write (quota exceeded, storage disabled); \<open>accepts\<close> says which
  writes it takes.
\<close>

datatype stored_text = Stringified json | IsoString nat | Garbled

type_synonym localStorage = "string \<Rightarrow> stored_text option"

definition CACHE_KEYS_PATIENTS :: string where
  "CACHE_KEYS_PATIENTS = ''medassist-cache-patients''"

definition CACHE_KEYS_DIAGNOSES :: string where
  "CACHE_KEYS_DIAGNOSES = ''medassist-cache-diagnoses''"

definition CACHE_KEYS_LAST_SYNC :: string where
  "CACHE_KEYS_LAST_SYNC = ''medassist-last-sync''"

definition setItem ::
  "(string \<Rightarrow> stored_text \<Rightarrow> bool) \<Rightarrow> localStorage \<Rightarrow> string \<Rightarrow> stored_text \<Rightarrow> localStorage option" where
  "setItem accepts ls k v = (if accepts k v then Some (ls(k \<mapsto> v)) else None)"

definition removeItem :: "localStorage \<Rightarrow> string \<Rightarrow> localStorage" where
  "removeItem ls k = ls(k := None)"

fun JSON_parse :: "stored_text \<Rightarrow> json option" where
  "JSON_parse (Stringified v) = Some v"
| "JSON_parse t = None"

text \<open>
  \<open>save\<close>: two writes inside one \<open>try\<close>; the \<open>catch\<close> logs and returns, so a refused
  write ends the function with what was stored before it.
\<close>

definition save ::
  "string \<Rightarrow> (string \<Rightarrow> stored_text \<Rightarrow> bool) \<Rightarrow> nat \<Rightarrow> localStorage \<Rightarrow> json list \<Rightarrow> localStorage" where
  "save key accepts now ls items =
     (case setItem accepts ls key (Stringified (JArr items)) of
        None \<Rightarrow> ls
      | Some ls1 \<Rightarrow>
          (case setItem accepts ls1 CACHE_KEYS_LAST_SYNC (IsoString now) of
             None \<Rightarrow> ls1
           | Some ls2 \<Rightarrow> ls2))"

text \<open>\<open>get\<close>: \<open>cached ? JSON.parse(cached) : null\<close>, and \<open>null\<close> from the \<open>catch\<close>.\<close>

definition get :: "string \<Rightarrow> localStorage \<Rightarrow> json" where
  "get key ls =
     (case ls key of
        None \<Rightarrow> JNull
      | Some cached \<Rightarrow> (case JSON_parse cached of Some v \<Rightarrow> v | None \<Rightarrow> JNull))"

definition savePatients ::
  "(string \<Rightarrow> stored_text \<Rightarrow> bool) \<Rightarrow> nat \<Rightarrow> localStorage \<Rightarrow> json list \<Rightarrow> localStorage" where
  "savePatients = save CACHE_KEYS_PATIENTS"

definition getPatients :: "localStorage \<Rightarrow> json" where
  "getPatients = get CACHE_KEYS_PATIENTS"

definition saveDiagnoses ::
  "(string \<Rightarrow> stored_text \<Rightarrow> bool) \<Rightarrow> nat \<Rightarrow> localStorage \<Rightarrow> json list \<Rightarrow> localStorage" where
  "saveDiagnoses = save CACHE_KEYS_DIAGNOSES"

definition getDiagnoses :: "localStorage \<Rightarrow> json" where
  "getDiagnoses = get CACHE_KEYS_DIAGNOSES"

definition clearAll :: "localStorage \<Rightarrow> localStorage" where
  "clearAll ls =
     foldl removeItem ls [CACHE_KEYS_PATIENTS, CACHE_KEYS_DIAGNOSES, CACHE_KEYS_LAST_SYNC]"

section \<open>Example values\<close>

definition example_input :: OfflineDiagnosisInput where
  "example_input = \<lparr>in_patientId = Some ''p1'', in_symptoms = [''fever''],
     in_vitalSigns = None, in_patientAge = 30, in_patientGender = ''male'',
     in_patientWeight = None, in_language = ''en''\<rparr>"

definition no_calls :: call_counts where
  "no_calls = \<lparr>primary_calls = 0, fallback_calls = 0\<rparr>"

text \<open>Primary answers 500 (apiRequest throws); the local service answers with an object.\<close>

definition primary_down :: backends where
  "primary_down = \<lparr>primary = (\<lambda>d. None),
     local_nlp = (\<lambda>d. Response 200 (Object [(''primaryDiagnosis'', JStr ''Viral infection'')]))\<rparr>"

text \<open>Primary answers with the stored diagnosis.\<close>

definition primary_up :: backends where
  "primary_up = \<lparr>primary = (\<lambda>d. Some (JObj [(''id'', JStr ''d1''), (''primaryDiagnosis'', JStr ''Flu'')])),
     local_nlp = (\<lambda>d. Rejected)\<rparr>"

text \<open>Primary is down; the local service labels its own answer.\<close>

definition self_labelled :: backends where
  "self_labelled = \<lparr>primary = (\<lambda>d. None),
     local_nlp = (\<lambda>d. Response 200
       (Object [(''mode'', JStr ''rules''), (''primaryDiagnosis'', JStr ''Viral infection'')]))\<rparr>"

text \<open>Primary is down; the local service answers 200 with a number as body.\<close>

definition scalar_reply :: backends where
  "scalar_reply = \<lparr>primary = (\<lambda>d. None), local_nlp = (\<lambda>d. Response 200 Scalar)\<rparr>"

text \<open>Both backends are down.\<close>

definition all_down :: backends where
  "all_down = \<lparr>primary = (\<lambda>d. None), local_nlp = (\<lambda>d. Response 503 NotJson)\<rparr>"

definition example_patient :: patient_row where
  "example_patient = \<lparr>p_id = ''p1'', p_name = ''A'', p_age = 30, p_gender = ''male'',
     p_weight = None, p_contactNumber = None, p_address = None, p_createdAt = 500\<rparr>"

definition example_db :: database where
  "example_db = \<lparr>patients = [example_patient], diagnoses = [], knowledge_base = []\<rparr>"

definition env_d1 :: call_env where
  "env_d1 = \<lparr>uuid = ''d1'', clock = 1000, disk_fault = False\<rparr>"

definition env_k1 :: call_env where
  "env_k1 = \<lparr>uuid = ''k1'', clock = 1001, disk_fault = False\<rparr>"

text \<open>The engine fails the statement of this call.\<close>

definition env_k_fault :: call_env where
  "env_k_fault = \<lparr>uuid = ''k1'', clock = 1001, disk_fault = True\<rparr>"

text \<open>An insert with no differential list, for patient p1 and for an unknown patient.\<close>

definition example_insert :: InsertDiagnosis where
  "example_insert = \<lparr>ins_patientId = ''p1'', ins_symptoms = Some (JArr [JStr ''fever'']),
     ins_vitalSigns = None, ins_primaryDiagnosis = ''Viral infection'',
     ins_differentialDiagnoses = None, ins_treatmentProtocol = None,
     ins_requiresReferral = None, ins_referralReason = None, ins_language = None\<rparr>"

definition orphan_insert :: InsertDiagnosis where
  "orphan_insert = example_insert\<lparr>ins_patientId := ''nobody''\<rparr>"

definition example_diagnosis :: Diagnosis where
  "example_diagnosis = \<lparr>d_id = ''d1'', d_patientId = ''p1'', d_symptoms = JArr [JStr ''fever''], d_vitalSigns = JNull,
     d_primaryDiagnosis = ''Viral infection'', d_differentialDiagnoses = JArr [],
     d_treatmentProtocol = JNull, d_requiresReferral = False,
     d_referralReason = None, d_language = ''en'', d_createdAt = 1000\<rparr>"



text \<open>The database after \<open>createDiagnosis\<close> of the example insert.\<close>

definition created_db :: database where
  "created_db = snd (createDiagnosis env_d1 example_db example_insert)"

text \<open>The engine fails the statement of \<open>createDiagnosis\<close>.\<close>

definition env_d_fault :: call_env where
  "env_d_fault = \<lparr>uuid = ''d1'', clock = 1000, disk_fault = True\<rparr>"



text \<open>The record stored for the example request and the example answer of the NLP service.\<close>

definition example_stored :: Diagnosis where
  "example_stored = example_diagnosis\<lparr>d_differentialDiagnoses :=
     JArr [JObj [(''condition'', JStr ''Viral infection''), (''confidence'', JNum 80),
                 (''reasoning'', JStr ''Common'')]]\<rparr>"

text \<open>A request for a patient of 17 with one symptom, and the same with no symptom.\<close>

definition example_body :: json where
  "example_body = JObj
     [(''patientId'', JStr ''p1''), (''symptoms'', JArr [JStr ''fever'']),
      (''patientAge'', JNum 17), (''patientGender'', JStr ''male'')]"

definition empty_symptoms_body :: json where
  "empty_symptoms_body = JObj
     [(''patientId'', JStr ''p1''), (''symptoms'', JArr []),
      (''patientAge'', JNum 17), (''patientGender'', JStr ''male'')]"

definition example_request :: SymptomAnalysis where
  "example_request = \<lparr>sa_patientId = ''p1'', sa_symptoms = [''fever''], sa_vitalSigns = None,
     sa_patientAge = 17, sa_patientGender = ''male'', sa_patientWeight = None,
     sa_language = ''en''\<rparr>"

definition example_ai :: AiDiagnosis where
  "example_ai = \<lparr>ai_primaryDiagnosis = ''Viral infection'',
     ai_differentialDiagnoses =
       Some [\<lparr>condition = ''Viral infection'', confidence = 80, reasoning = ''Common''\<rparr>],
     ai_treatmentProtocol = None, ai_requiresReferral = None, ai_referralReason = None\<rparr>"

definition example_nlp :: "SymptomAnalysis \<Rightarrow> AiDiagnosis option" where
  "example_nlp validatedData = Some example_ai"

definition example_server :: server where
  "example_server = \<lparr>sqlite = example_db, nlp_calls = 0\<rparr>"

text \<open>The same request for a patient of 60.\<close>

definition senior_body :: json where
  "senior_body = JObj
     [(''patientId'', JStr ''p1''), (''symptoms'', JArr [JStr ''fever'']),
      (''patientAge'', JNum 60), (''patientGender'', JStr ''male'')]"

text \<open>A browser that refuses every write, one that takes every write, an empty store.\<close>

definition storage_full :: "string \<Rightarrow> stored_text \<Rightarrow> bool" where
  "storage_full k v = False"

definition storage_free :: "string \<Rightarrow> stored_text \<Rightarrow> bool" where
  "storage_free k v = True"

definition empty_storage :: localStorage where
  "empty_storage k = None"

definition example_items :: "json list" where
  "example_items = [JObj [(''id'', JStr ''p1''), (''name'', JStr ''A'')]]"

section \<open>Properties of the resolver\<close>

lemma diagnoseOffline_calls:
  "snd (diagnoseOffline b d c) = c\<lparr>fallback_calls := fallback_calls c + 1\<rparr>"
  by (simp add: diagnoseOffline_def fetch_analyze_def split: fetch_result.split reply_body.split)

lemma diagnoseOffline_unreachable:
  "unreachable (local_nlp b d) \<Longrightarrow> fst (diagnoseOffline b d c) = unavailable_result d"
  by (cases "local_nlp b d" rule: unreachable.cases)
     (simp_all add: diagnoseOffline_def fetch_analyze_def split: reply_body.split)

text \<open>
  C2. While the connectivity oracle reports offline, the resolver makes no call to the
  primary backend and exactly one call to the local fallback, whose result it returns.
\<close>

theorem offline_skips_primary:
  "\<not> isOnline nav \<Longrightarrow>
     primary_calls (snd (mutationFn b (isOnline nav) d c)) = primary_calls c \<and>
     fallback_calls (snd (mutationFn b (isOnline nav) d c)) = fallback_calls c + 1 \<and>
     mutationFn b (isOnline nav) d c = diagnoseOffline b d c"
  by (simp add: mutationFn_def diagnoseOffline_calls)

theorem offline_skips_primary_witness:
  "\<not> isOnline (Some False) \<and>
   primary_calls (snd (mutationFn primary_up (isOnline (Some False)) example_input no_calls)) = 0 \<and>
   fallback_calls (snd (mutationFn primary_up (isOnline (Some False)) example_input no_calls)) = 1"
  using offline_skips_primary [of "Some False" primary_up example_input no_calls]
  by (simp add: no_calls_def mutationFn_def)

text \<open>
  C3. Whenever the request is routed to the local fallback (the oracle reports offline, or
  the primary call failed) and the fallback is unreachable, the resolver still returns a
  value: the degraded result, with the non-empty sentinel as primaryDiagnosis, an empty
  differential list, requiresReferral false and the fixed referralReason.
\<close>

theorem degraded_result_when_fallback_unreachable:
  "\<not> online \<or> primary b d = None \<Longrightarrow> unreachable (local_nlp b d) \<Longrightarrow>
     fst (mutationFn b online d c) = unavailable_result d \<and>
     field (fst (mutationFn b online d c)) ''primaryDiagnosis''
       = Some (JStr ''Offline diagnosis service unavailable'') \<and>
     ''Offline diagnosis service unavailable'' \<noteq> [] \<and>
     field (fst (mutationFn b online d c)) ''differentialDiagnoses'' = Some (JArr []) \<and>
     field (fst (mutationFn b online d c)) ''requiresReferral'' = Some (JBool False) \<and>
     field (fst (mutationFn b online d c)) ''referralReason''
       = Some (JStr ''Error in local NLP service'')"
proof -
  assume route: "\<not> online \<or> primary b d = None" and down: "unreachable (local_nlp b d)"
  have "fst (mutationFn b online d c) = unavailable_result d"
  proof (cases online)
    case False
    then show ?thesis
      by (simp add: mutationFn_def diagnoseOffline_unreachable [OF down])
  next
    case True
    with route have "primary b d = None" by simp
    with True show ?thesis
      by (simp add: mutationFn_def apiRequest_def diagnoseOffline_unreachable [OF down])
  qed
  then show ?thesis
    by (simp add: unavailable_result_def)
qed

theorem degraded_result_when_fallback_unreachable_witness:
  "primary all_down example_input = None \<and>
   unreachable (local_nlp all_down example_input) \<and>
   field (fst (mutationFn all_down True example_input no_calls)) ''primaryDiagnosis''
     = Some (JStr ''Offline diagnosis service unavailable'') \<and>
   field (fst (mutationFn all_down True example_input no_calls)) ''patientId''
     = Some (JStr ''p1'')"
proof -
  have r: "\<not> True \<or> primary all_down example_input = None"
    by (simp add: all_down_def)
  have u: "unreachable (local_nlp all_down example_input)"
    by (simp add: all_down_def)
  show ?thesis
    using r u degraded_result_when_fallback_unreachable [OF r u, of no_calls]
    by (simp add: unavailable_result_def example_input_def)
qed

lemma map_of_added_mode:
  "map_of kvs ''mode'' = None \<Longrightarrow> map_of (kvs @ [(''mode'', v)]) ''mode'' = Some v"
  by (simp add: map_add_def)

lemma diagnoseOffline_untagged:
  "local_nlp b d = Response st (Object kvs) \<Longrightarrow> ok st \<Longrightarrow> map_of kvs ''mode'' = None \<Longrightarrow>
     fst (diagnoseOffline b d c) = JObj (kvs @ [(''mode'', JStr ''offline'')])"
  by (simp add: diagnoseOffline_def fetch_analyze_def)

lemma diagnoseOffline_tagged:
  "local_nlp b d = Response st (Object kvs) \<Longrightarrow> ok st \<Longrightarrow> map_of kvs ''mode'' = Some m \<Longrightarrow>
     fst (diagnoseOffline b d c) = JObj kvs"
  by (simp add: diagnoseOffline_def fetch_analyze_def)

lemma diagnoseOffline_degraded:
  assumes "\<forall>st kvs. local_nlp b d = Response st (Object kvs) \<longrightarrow> \<not> ok st"
  shows "fst (diagnoseOffline b d c) = unavailable_result d"
proof (cases "local_nlp b d")
  case Rejected
  then show ?thesis by (simp add: diagnoseOffline_def fetch_analyze_def)
next
  case (Response st body)
  with assms show ?thesis
    by (cases body) (simp_all add: diagnoseOffline_def fetch_analyze_def)
qed

lemma mutationFn_primary_failed:
  "online \<Longrightarrow> primary b d = None \<Longrightarrow>
     mutationFn b online d c = diagnoseOffline b d (c\<lparr>primary_calls := primary_calls c + 1\<rparr>)"
  by (simp add: mutationFn_def apiRequest_def)

lemma mutationFn_primary_answered:
  "online \<Longrightarrow> primary b d = Some r \<Longrightarrow>
     mutationFn b online d c = (r, c\<lparr>primary_calls := primary_calls c + 1\<rparr>)"
  by (simp add: mutationFn_def apiRequest_def)

text \<open>
  C1, as stated, fails on the code. A result produced by the primary backend is returned as
  \<open>apiRequest\<close> gave it: the stored diagnosis carries no \<open>mode\<close>, so it is not tagged
  "online". And an answer of the fallback that has a \<open>mode\<close> of its own keeps it, so it is
  not tagged "offline".
\<close>

theorem provenance_tag_counterexample:
  "snd (mutationFn primary_up True example_input no_calls)
     = \<lparr>primary_calls = 1, fallback_calls = 0\<rparr> \<and>
   field (fst (mutationFn primary_up True example_input no_calls)) ''mode''
     \<noteq> Some (JStr ''online'') \<and>
   snd (mutationFn self_labelled True example_input no_calls)
     = \<lparr>primary_calls = 1, fallback_calls = 1\<rparr> \<and>
   field (fst (mutationFn self_labelled True example_input no_calls)) ''mode''
     \<noteq> Some (JStr ''offline'')"
  by (simp add: mutationFn_def apiRequest_def diagnoseOffline_def fetch_analyze_def
      primary_up_def self_labelled_def no_calls_def ok_def)

text \<open>
  C1, amended. While the oracle reports online: if the primary call fails, the resolver
  calls the primary once and the fallback exactly once and returns what \<open>diagnoseOffline\<close>
  returns. That is the fallback's answer with \<open>mode = "offline"\<close> added when the answer
  is a 2xx JSON object with no \<open>mode\<close> of its own; the answer unchanged when it is a 2xx
  JSON object with a \<open>mode\<close> of its own; and the degraded result, whose mode is
  "offline", in every other case (fetch rejected, status outside 2xx, body not JSON, body
  \<open>null\<close> or a scalar). So the result is tagged "offline" unless the fallback's object
  carries a \<open>mode\<close> of its own. If the primary call succeeds, its result is returned
  unchanged, no tag is added and the fallback is not called.
\<close>

theorem fallback_once_on_primary_failure:
  "online \<Longrightarrow>
     (primary b d = None \<longrightarrow>
        snd (mutationFn b online d c)
          = c\<lparr>primary_calls := primary_calls c + 1, fallback_calls := fallback_calls c + 1\<rparr> \<and>
        (\<forall>st kvs. local_nlp b d = Response st (Object kvs) \<and> ok st \<and> map_of kvs ''mode'' = None \<longrightarrow>
           fst (mutationFn b online d c) = JObj (kvs @ [(''mode'', JStr ''offline'')])) \<and>
        (\<forall>st kvs m. local_nlp b d = Response st (Object kvs) \<and> ok st \<and> map_of kvs ''mode'' = Some m \<longrightarrow>
           fst (mutationFn b online d c) = JObj kvs) \<and>
        ((\<forall>st kvs. local_nlp b d = Response st (Object kvs) \<longrightarrow> \<not> ok st) \<longrightarrow>
           fst (mutationFn b online d c) = unavailable_result d) \<and>
        ((\<forall>st kvs m. local_nlp b d = Response st (Object kvs) \<and> ok st \<longrightarrow>
             map_of kvs ''mode'' \<noteq> Some m) \<longrightarrow>
           completed_offline (fst (mutationFn b online d c)))) \<and>
     (\<forall>r. primary b d = Some r \<longrightarrow>
        mutationFn b online d c = (r, c\<lparr>primary_calls := primary_calls c + 1\<rparr>))"
proof (intro conjI impI allI)
  assume on: online and down: "primary b d = None"
  note step = mutationFn_primary_failed [OF on down]
  show "snd (mutationFn b online d c)
          = c\<lparr>primary_calls := primary_calls c + 1, fallback_calls := fallback_calls c + 1\<rparr>"
    by (simp add: step diagnoseOffline_calls)
  {
    fix st kvs
    assume "local_nlp b d = Response st (Object kvs) \<and> ok st \<and> map_of kvs ''mode'' = None"
    then show "fst (mutationFn b online d c) = JObj (kvs @ [(''mode'', JStr ''offline'')])"
      by (simp add: step diagnoseOffline_untagged)
  }
  {
    fix st kvs m
    assume "local_nlp b d = Response st (Object kvs) \<and> ok st \<and> map_of kvs ''mode'' = Some m"
    then show "fst (mutationFn b online d c) = JObj kvs"
      by (simp add: step diagnoseOffline_tagged)
  }
  {
    assume "\<forall>st kvs. local_nlp b d = Response st (Object kvs) \<longrightarrow> \<not> ok st"
    then show "fst (mutationFn b online d c) = unavailable_result d"
      by (simp add: step diagnoseOffline_degraded)
  }
  {
    assume own: "\<forall>st kvs m. local_nlp b d = Response st (Object kvs) \<and> ok st \<longrightarrow>
      map_of kvs ''mode'' \<noteq> Some m"
    show "completed_offline (fst (mutationFn b online d c))"
    proof (cases "\<exists>st kvs. local_nlp b d = Response st (Object kvs) \<and> ok st")
      case True
      then obtain st kvs where r: "local_nlp b d = Response st (Object kvs)" and k: "ok st"
        by (elim exE conjE)
      from own r k have n: "map_of kvs ''mode'' = None"
        by (cases "map_of kvs ''mode''") auto
      from r k n have "fst (mutationFn b online d c) = JObj (kvs @ [(''mode'', JStr ''offline'')])"
        by (simp add: step diagnoseOffline_untagged)
      with n show ?thesis
        by (simp add: completed_offline_def map_of_added_mode del: map_of_append)
    next
      case False
      then have "\<forall>st kvs. local_nlp b d = Response st (Object kvs) \<longrightarrow> \<not> ok st"
        by blast
      then have "fst (mutationFn b online d c) = unavailable_result d"
        by (simp add: step diagnoseOffline_degraded)
      then show ?thesis
        by (simp add: completed_offline_def unavailable_result_def)
    qed
  }
next
  fix r
  assume "online" and "primary b d = Some r"
  then show "mutationFn b online d c = (r, c\<lparr>primary_calls := primary_calls c + 1\<rparr>)"
    by (rule mutationFn_primary_answered)
qed

theorem fallback_once_on_primary_failure_witness:
  "primary primary_down example_input = None \<and>
   local_nlp primary_down example_input
     = Response 200 (Object [(''primaryDiagnosis'', JStr ''Viral infection'')]) \<and>
   ok 200 \<and>
   snd (mutationFn primary_down True example_input no_calls)
     = \<lparr>primary_calls = 1, fallback_calls = 1\<rparr> \<and>
   fst (mutationFn primary_down True example_input no_calls)
     = JObj [(''primaryDiagnosis'', JStr ''Viral infection''), (''mode'', JStr ''offline'')] \<and>
   completed_offline (fst (mutationFn primary_down True example_input no_calls)) \<and>
   primary scalar_reply example_input = None \<and>
   local_nlp scalar_reply example_input = Response 200 Scalar \<and>
   fst (mutationFn scalar_reply True example_input no_calls) = unavailable_result example_input \<and>
   completed_offline (fst (mutationFn scalar_reply True example_input no_calls))"
proof -
  have p: "primary primary_down example_input = None"
    by (simp add: primary_down_def)
  have l: "local_nlp primary_down example_input
     = Response 200 (Object [(''primaryDiagnosis'', JStr ''Viral infection'')])"
    by (simp add: primary_down_def)
  have k: "ok 200"
    by (simp add: ok_def)
  have m: "map_of [(''primaryDiagnosis'', JStr ''Viral infection'')] ''mode'' = None"
    by simp
  from fallback_once_on_primary_failure [of True primary_down example_input no_calls] p
  have "snd (mutationFn primary_down True example_input no_calls)
          = no_calls\<lparr>primary_calls := primary_calls no_calls + 1,
                     fallback_calls := fallback_calls no_calls + 1\<rparr>"
    and "\<forall>st kvs. local_nlp primary_down example_input = Response st (Object kvs) \<and> ok st \<and>
           map_of kvs ''mode'' = None \<longrightarrow>
           fst (mutationFn primary_down True example_input no_calls)
             = JObj (kvs @ [(''mode'', JStr ''offline'')])"
    by blast+
  with p l k m have first:
    "snd (mutationFn primary_down True example_input no_calls)
       = \<lparr>primary_calls = 1, fallback_calls = 1\<rparr> \<and>
     fst (mutationFn primary_down True example_input no_calls)
       = JObj [(''primaryDiagnosis'', JStr ''Viral infection''), (''mode'', JStr ''offline'')]"
    by (simp add: no_calls_def)
  have ps: "primary scalar_reply example_input = None"
    by (simp add: scalar_reply_def)
  have ls: "local_nlp scalar_reply example_input = Response 200 Scalar"
    by (simp add: scalar_reply_def)
  have none: "\<forall>st kvs. local_nlp scalar_reply example_input = Response st (Object kvs) \<longrightarrow> \<not> ok st"
    by (simp add: ls)
  have none': "\<forall>st kvs m. local_nlp scalar_reply example_input = Response st (Object kvs) \<and> ok st \<longrightarrow>
      map_of kvs ''mode'' \<noteq> Some m"
    by (simp add: ls)
  from fallback_once_on_primary_failure [of True scalar_reply example_input no_calls] ps none none'
  have second: "fst (mutationFn scalar_reply True example_input no_calls)
        = unavailable_result example_input \<and>
      completed_offline (fst (mutationFn scalar_reply True example_input no_calls))"
    by blast
  from p l k first ps ls second show ?thesis
    by (simp add: completed_offline_def unavailable_result_def)
qed

section \<open>Properties of the record gateway\<close>









lemma find_appended:
  "\<forall>r \<in> set xs. \<not> P r \<Longrightarrow> P x \<Longrightarrow> find P (xs @ [x]) = Some x"
  by (induction xs) auto


lemma parse_stringified:
  "parse_or (stringify_if_truthy v) dflt
     = Inr (case v of Some j \<Rightarrow> if truthy j then j else dflt | None \<Rightarrow> dflt)"
  by (cases v) simp_all

lemma survives_nullish:
  "survives v \<Longrightarrow>
     (case v of Some j \<Rightarrow> if truthy j then j else dflt | None \<Rightarrow> dflt) = nullish v dflt"
  by (cases "(v, dflt)" rule: nullish.cases) auto

text \<open>Reading back the row that \<open>createDiagnosis\<close> binds to its INSERT.\<close>

lemma rowToDiagnosis_createDiagnosis_row:
  "rowToDiagnosis (createDiagnosis_row i t ins)
     = Inr ((createDiagnosis_record i t ins)
         \<lparr>d_vitalSigns :=
            (case ins_vitalSigns ins of Some j \<Rightarrow> if truthy j then j else JNull | None \<Rightarrow> JNull),
          d_differentialDiagnoses :=
            (case ins_differentialDiagnoses ins of
               Some j \<Rightarrow> if truthy j then j else JArr [] | None \<Rightarrow> JArr []),
          d_treatmentProtocol :=
            (case ins_treatmentProtocol ins of
               Some j \<Rightarrow> if truthy j then j else JNull | None \<Rightarrow> JNull)\<rparr>)"
  by (simp add: rowToDiagnosis_def createDiagnosis_row_def createDiagnosis_record_def
      parse_stringified)

lemma rowToDiagnosis_createDiagnosis_row_survives:
  assumes "survives (ins_vitalSigns ins)" and "survives (ins_differentialDiagnoses ins)"
    and "survives (ins_treatmentProtocol ins)"
  shows "rowToDiagnosis (createDiagnosis_row i t ins) = Inr (createDiagnosis_record i t ins)"
  using assms
  by (simp add: rowToDiagnosis_createDiagnosis_row survives_nullish)
     (simp add: createDiagnosis_record_def)

lemma createDiagnosis_rejected:
  "createDiagnosis env db ins = (Inl err, db') \<Longrightarrow> db' = db"
  by (auto simp: createDiagnosis_def Let_def split: sum.splits)

lemma createDiagnosis_stored:
  assumes "createDiagnosis env db ins = (Inr d, db')"
  shows "db' = db\<lparr>diagnoses := diagnoses db @ [createDiagnosis_row (uuid env) (clock env) ins]\<rparr> \<and>
         d = createDiagnosis_record (uuid env) (clock env) ins \<and>
         uuid env \<notin> set (map row_id (diagnoses db)) \<and>
         ins_patientId ins \<in> set (map p_id (patients db)) \<and> \<not> disk_fault env"
proof -
  from assms have "insert_diagnosis (disk_fault env) db (createDiagnosis_row (uuid env) (clock env) ins)
      = Inr db' \<and> d = createDiagnosis_record (uuid env) (clock env) ins"
    by (auto simp: createDiagnosis_def Let_def split: sum.splits)
  then show ?thesis
    by (auto simp: insert_diagnosis_def createDiagnosis_row_def split: if_splits)
qed

lemma createDiagnosis_accepted:
  assumes "ins_patientId ins \<in> set (map p_id (patients db))"
    and "\<not> disk_fault env"
    and "uuid env \<notin> set (map row_id (diagnoses db))"
  shows "createDiagnosis env db ins
     = (Inr (createDiagnosis_record (uuid env) (clock env) ins),
        db\<lparr>diagnoses := diagnoses db @ [createDiagnosis_row (uuid env) (clock env) ins]\<rparr>)"
  using assms
  by (simp add: createDiagnosis_def insert_diagnosis_def Let_def createDiagnosis_row_def)

lemma getDiagnosis_appended:
  assumes "row_id row \<notin> set (map row_id (diagnoses db))"
  shows "getDiagnosis (db\<lparr>diagnoses := diagnoses db @ [row]\<rparr>) (row_id row)
     = (case rowToDiagnosis row of Inl e \<Rightarrow> Inl e | Inr d \<Rightarrow> Inr (Some d))"
proof -
  have "\<forall>r \<in> set (diagnoses db). \<not> (row_id r = row_id row)"
    using assms by (auto simp: image_iff)
  then have "find (\<lambda>r. row_id r = row_id row) (diagnoses db @ [row]) = Some row"
    by (rule find_appended) simp
  then show ?thesis
    by (simp add: getDiagnosis_def)
qed

text \<open>
  C9, as stated, fails on the code: \<open>createDiagnosis\<close> has no check and no recovery of
  its own, so for an existing patient it still throws and stores nothing when the engine
  fails the INSERT, or when \<open>newId()\<close> returns an id that the table already holds.
\<close>

theorem createDiagnosis_engine_counterexample:
  "ins_patientId example_insert \<in> set (map p_id (patients example_db)) \<and>
   createDiagnosis env_d_fault example_db example_insert = (Inl SQLITE_IOERR, example_db) \<and>
   ins_patientId example_insert \<in> set (map p_id (patients created_db)) \<and>
   createDiagnosis env_d1 created_db example_insert
     = (Inl SQLITE_CONSTRAINT_PRIMARYKEY, created_db)"
  by (simp add: created_db_def createDiagnosis_def insert_diagnosis_def createDiagnosis_row_def
      example_insert_def example_db_def example_patient_def env_d1_def env_d_fault_def Let_def)

text \<open>
  C9, amended. \<open>createDiagnosis\<close> with a patientId that is not the id of a row of
  \<open>patients\<close> fails and stores nothing; the error is the foreign-key violation (the
  spec's ReferenceError) unless the engine fails the statement for a reason of its own or
  the new id is already in the table. With the id of an existing patient it fails with the
  engine's error and stores nothing in those two cases, and otherwise appends exactly the
  row of its arguments under the new id and timestamp and returns the full record, field
  by field as written below. Whenever it succeeds, the id it assigned is fresh and the
  patient exists; and \<open>getDiagnosis\<close> of the new id reads the returned record back when
  each of vitalSigns, differentialDiagnoses and treatmentProtocol was given as
  \<open>undefined\<close>, \<open>null\<close> or a true value.
\<close>

theorem createDiagnosis_enforces_patient:
  "(ins_patientId ins \<notin> set (map p_id (patients db)) \<longrightarrow>
      (\<exists>err. createDiagnosis env db ins = (Inl err, db)) \<and>
      (\<not> disk_fault env \<and> uuid env \<notin> set (map row_id (diagnoses db)) \<longrightarrow>
         createDiagnosis env db ins = (Inl SQLITE_CONSTRAINT_FOREIGNKEY, db))) \<and>
   (ins_patientId ins \<in> set (map p_id (patients db)) \<longrightarrow>
      (disk_fault env \<longrightarrow> createDiagnosis env db ins = (Inl SQLITE_IOERR, db)) \<and>
      (\<not> disk_fault env \<and> uuid env \<in> set (map row_id (diagnoses db)) \<longrightarrow>
         createDiagnosis env db ins = (Inl SQLITE_CONSTRAINT_PRIMARYKEY, db)) \<and>
      (\<not> disk_fault env \<and> uuid env \<notin> set (map row_id (diagnoses db)) \<longrightarrow>
         (let d = \<lparr>d_id = uuid env,
                    d_patientId = ins_patientId ins,
                    d_symptoms = nullish (ins_symptoms ins) (JArr []),
                    d_vitalSigns = nullish (ins_vitalSigns ins) JNull,
                    d_primaryDiagnosis = ins_primaryDiagnosis ins,
                    d_differentialDiagnoses = nullish (ins_differentialDiagnoses ins) (JArr []),
                    d_treatmentProtocol = nullish (ins_treatmentProtocol ins) JNull,
                    d_requiresReferral = (ins_requiresReferral ins = Some True),
                    d_referralReason = ins_referralReason ins,
                    d_language = (case ins_language ins of Some l \<Rightarrow> l | None \<Rightarrow> ''en''),
                    d_createdAt = clock env\<rparr>;
              row = \<lparr>row_id = uuid env,
                      row_patientId = ins_patientId ins,
                      row_symptoms = Some (JsonText (nullish (ins_symptoms ins) (JArr []))),
                      row_vitalSigns = stringify_if_truthy (ins_vitalSigns ins),
                      row_primaryDiagnosis = ins_primaryDiagnosis ins,
                      row_differentialDiagnoses =
                        stringify_if_truthy (ins_differentialDiagnoses ins),
                      row_treatmentProtocol = stringify_if_truthy (ins_treatmentProtocol ins),
                      row_requiresReferral =
                        Some (if ins_requiresReferral ins = Some True then 1 else 0),
                      row_referralReason = ins_referralReason ins,
                      row_language =
                        Some (case ins_language ins of Some l \<Rightarrow> l | None \<Rightarrow> ''en''),
                      row_createdAt = clock env\<rparr>
          in createDiagnosis env db ins = (Inr d, db\<lparr>diagnoses := diagnoses db @ [row]\<rparr>) \<and>
             (survives (ins_vitalSigns ins) \<and> survives (ins_differentialDiagnoses ins) \<and>
              survives (ins_treatmentProtocol ins) \<longrightarrow>
                getDiagnosis (db\<lparr>diagnoses := diagnoses db @ [row]\<rparr>) (uuid env)
                  = Inr (Some d))))) \<and>
   (\<forall>d db'. createDiagnosis env db ins = (Inr d, db') \<longrightarrow>
      d_id d = uuid env \<and> d_id d \<notin> set (map row_id (diagnoses db)) \<and>
      ins_patientId ins \<in> set (map p_id (patients db)))"
proof (intro conjI impI allI)
  assume missing: "ins_patientId ins \<notin> set (map p_id (patients db))"
  then show "\<exists>err. createDiagnosis env db ins = (Inl err, db)"
    by (simp add: createDiagnosis_def insert_diagnosis_def Let_def createDiagnosis_row_def)
  assume "\<not> disk_fault env \<and> uuid env \<notin> set (map row_id (diagnoses db))"
  with missing show "createDiagnosis env db ins = (Inl SQLITE_CONSTRAINT_FOREIGNKEY, db)"
    by (simp add: createDiagnosis_def insert_diagnosis_def Let_def createDiagnosis_row_def)
next
  assume "disk_fault env"
  then show "createDiagnosis env db ins = (Inl SQLITE_IOERR, db)"
    by (simp add: createDiagnosis_def insert_diagnosis_def Let_def)
next
  assume "\<not> disk_fault env \<and> uuid env \<in> set (map row_id (diagnoses db))"
  then show "createDiagnosis env db ins = (Inl SQLITE_CONSTRAINT_PRIMARYKEY, db)"
    by (simp add: createDiagnosis_def insert_diagnosis_def Let_def createDiagnosis_row_def)
next
  assume exists: "ins_patientId ins \<in> set (map p_id (patients db))"
    and free: "\<not> disk_fault env \<and> uuid env \<notin> set (map row_id (diagnoses db))"
  let ?row = "createDiagnosis_row (uuid env) (clock env) ins"
  let ?d = "createDiagnosis_record (uuid env) (clock env) ins"
  have run: "createDiagnosis env db ins = (Inr ?d, db\<lparr>diagnoses := diagnoses db @ [?row]\<rparr>)"
    using exists free by (simp add: createDiagnosis_accepted)
  have id: "row_id ?row = uuid env"
    by (simp add: createDiagnosis_row_def)
  have again: "survives (ins_vitalSigns ins) \<and> survives (ins_differentialDiagnoses ins) \<and>
      survives (ins_treatmentProtocol ins) \<longrightarrow>
      getDiagnosis (db\<lparr>diagnoses := diagnoses db @ [?row]\<rparr>) (uuid env) = Inr (Some ?d)"
    using getDiagnosis_appended [of ?row db] free id
    by (simp add: rowToDiagnosis_createDiagnosis_row_survives)
  from run again
  have "createDiagnosis env db ins = (Inr ?d, db\<lparr>diagnoses := diagnoses db @ [?row]\<rparr>) \<and>
      (survives (ins_vitalSigns ins) \<and> survives (ins_differentialDiagnoses ins) \<and>
       survives (ins_treatmentProtocol ins) \<longrightarrow>
         getDiagnosis (db\<lparr>diagnoses := diagnoses db @ [?row]\<rparr>) (uuid env) = Inr (Some ?d))"
    by (rule conjI)
  then show "let d = \<lparr>d_id = uuid env,
                    d_patientId = ins_patientId ins,
                    d_symptoms = nullish (ins_symptoms ins) (JArr []),
                    d_vitalSigns = nullish (ins_vitalSigns ins) JNull,
                    d_primaryDiagnosis = ins_primaryDiagnosis ins,
                    d_differentialDiagnoses = nullish (ins_differentialDiagnoses ins) (JArr []),
                    d_treatmentProtocol = nullish (ins_treatmentProtocol ins) JNull,
                    d_requiresReferral = (ins_requiresReferral ins = Some True),
                    d_referralReason = ins_referralReason ins,
                    d_language = (case ins_language ins of Some l \<Rightarrow> l | None \<Rightarrow> ''en''),
                    d_createdAt = clock env\<rparr>;
              row = \<lparr>row_id = uuid env,
                      row_patientId = ins_patientId ins,
                      row_symptoms = Some (JsonText (nullish (ins_symptoms ins) (JArr []))),
                      row_vitalSigns = stringify_if_truthy (ins_vitalSigns ins),
                      row_primaryDiagnosis = ins_primaryDiagnosis ins,
                      row_differentialDiagnoses =
                        stringify_if_truthy (ins_differentialDiagnoses ins),
                      row_treatmentProtocol = stringify_if_truthy (ins_treatmentProtocol ins),
                      row_requiresReferral =
                        Some (if ins_requiresReferral ins = Some True then 1 else 0),
                      row_referralReason = ins_referralReason ins,
                      row_language =
                        Some (case ins_language ins of Some l \<Rightarrow> l | None \<Rightarrow> ''en''),
                      row_createdAt = clock env\<rparr>
          in createDiagnosis env db ins = (Inr d, db\<lparr>diagnoses := diagnoses db @ [row]\<rparr>) \<and>
             (survives (ins_vitalSigns ins) \<and> survives (ins_differentialDiagnoses ins) \<and>
              survives (ins_treatmentProtocol ins) \<longrightarrow>
                getDiagnosis (db\<lparr>diagnoses := diagnoses db @ [row]\<rparr>) (uuid env)
                  = Inr (Some d))"
    unfolding Let_def createDiagnosis_row_def createDiagnosis_record_def .
next
  fix d db'
  assume "createDiagnosis env db ins = (Inr d, db')"
  from createDiagnosis_stored [OF this]
  have d: "d = createDiagnosis_record (uuid env) (clock env) ins"
    and fresh: "uuid env \<notin> set (map row_id (diagnoses db))"
    and exists: "ins_patientId ins \<in> set (map p_id (patients db))"
    by simp_all
  from d show "d_id d = uuid env"
    by (simp add: createDiagnosis_record_def)
  with fresh show "d_id d \<notin> set (map row_id (diagnoses db))"
    by simp
  from exists show "ins_patientId ins \<in> set (map p_id (patients db))" .
qed

theorem createDiagnosis_enforces_patient_witness:
  "ins_patientId orphan_insert \<notin> set (map p_id (patients example_db)) \<and>
   createDiagnosis env_d1 example_db orphan_insert
     = (Inl SQLITE_CONSTRAINT_FOREIGNKEY, example_db) \<and>
   ins_patientId example_insert \<in> set (map p_id (patients example_db)) \<and>
   \<not> disk_fault env_d1 \<and> uuid env_d1 \<notin> set (map row_id (diagnoses example_db)) \<and>
   fst (createDiagnosis env_d1 example_db example_insert) = Inr example_diagnosis \<and>
   map row_id (diagnoses (snd (createDiagnosis env_d1 example_db example_insert))) = [''d1''] \<and>
   getDiagnosis (snd (createDiagnosis env_d1 example_db example_insert)) ''d1''
     = Inr (Some example_diagnosis) \<and>
   disk_fault env_d_fault \<and>
   createDiagnosis env_d_fault example_db example_insert = (Inl SQLITE_IOERR, example_db)"
proof -
  have a: "ins_patientId orphan_insert \<notin> set (map p_id (patients example_db))"
    by (simp add: orphan_insert_def example_insert_def example_db_def example_patient_def)
  have b: "ins_patientId example_insert \<in> set (map p_id (patients example_db))"
    by (simp add: example_insert_def example_db_def example_patient_def)
  have f: "\<not> disk_fault env_d1 \<and> uuid env_d1 \<notin> set (map row_id (diagnoses example_db))"
    by (simp add: example_db_def env_d1_def)
  have g: "disk_fault env_d_fault"
    by (simp add: env_d_fault_def)
  have s: "survives (ins_vitalSigns example_insert) \<and>
      survives (ins_differentialDiagnoses example_insert) \<and>
      survives (ins_treatmentProtocol example_insert)"
    by (simp add: example_insert_def)
  note c = createDiagnosis_enforces_patient [of orphan_insert example_db env_d1,
      THEN conjunct1, THEN mp, OF a, THEN conjunct2, THEN mp, OF f]
  note e = createDiagnosis_enforces_patient [of example_insert example_db env_d_fault,
      THEN conjunct2, THEN conjunct1, THEN mp, OF b, THEN conjunct1, THEN mp, OF g]
  note t = createDiagnosis_enforces_patient [of example_insert example_db env_d1,
      THEN conjunct2, THEN conjunct1, THEN mp, OF b, THEN conjunct2, THEN conjunct2,
      THEN mp, OF f, unfolded Let_def]
  note run = t [THEN conjunct1]
  note again = t [THEN conjunct2, THEN mp, OF s]
  have d: "fst (createDiagnosis env_d1 example_db example_insert) = Inr example_diagnosis"
    unfolding run by (simp add: example_insert_def example_diagnosis_def env_d1_def)
  have r: "map row_id (diagnoses (snd (createDiagnosis env_d1 example_db example_insert))) = [''d1'']"
    unfolding run by (simp add: example_db_def env_d1_def)
  have "getDiagnosis (snd (createDiagnosis env_d1 example_db example_insert)) (uuid env_d1)
      = Inr (Some example_diagnosis)"
    unfolding run snd_conv again
    by (simp add: example_insert_def example_diagnosis_def env_d1_def)
  then have h: "getDiagnosis (snd (createDiagnosis env_d1 example_db example_insert)) ''d1''
      = Inr (Some example_diagnosis)"
    by (simp add: env_d1_def)
  from a b c d e f g h r show ?thesis
    by (intro conjI) simp_all
qed









section \<open>Properties of the analyze endpoint\<close>

lemma both_left_issue:
  "a = Inl e \<Longrightarrow> \<exists>e'. both a b = Inl e' \<and> set e \<subseteq> set e'"
  by (cases b) auto

lemma both_right_issue:
  "b = Inl e \<Longrightarrow> \<exists>e'. both a b = Inl e' \<and> set e \<subseteq> set e'"
  by (cases a) auto

lemma parse_empty_symptoms:
  assumes "map_of kvs ''symptoms'' = Some (JArr [])"
  shows "\<exists>errors. symptomAnalysisSchema_parse (JObj kvs) = Inl errors \<and>
           \<lparr>code = too_small, path = [Key ''symptoms''],
            message = Some ''At least one symptom is required''\<rparr> \<in> set errors"
proof -
  let ?i = "\<lparr>code = too_small, path = [Key ''symptoms''],
            message = Some ''At least one symptom is required''\<rparr>"
  let ?rest = "both (z_optional z_vitalSigns [Key ''vitalSigns''] (map_of kvs ''vitalSigns''))
          (both (z_number [Key ''patientAge''] (map_of kvs ''patientAge''))
          (both (z_string [Key ''patientGender''] (map_of kvs ''patientGender''))
          (both (z_optional z_number [Key ''patientWeight''] (map_of kvs ''patientWeight''))
                (z_language [Key ''language''] (map_of kvs ''language'')))))"
  have s: "z_symptoms [Key ''symptoms''] (map_of kvs ''symptoms'') = Inl [?i]"
    using assms by simp
  from both_left_issue [OF s, of ?rest] obtain e1 where
    e1: "both (z_symptoms [Key ''symptoms''] (map_of kvs ''symptoms'')) ?rest = Inl e1"
    and i1: "?i \<in> set e1"
    by auto
  from both_right_issue [OF e1, of "z_string [Key ''patientId''] (map_of kvs ''patientId'')"]
  obtain e2 where
    e2: "both (z_string [Key ''patientId''] (map_of kvs ''patientId''))
           (both (z_symptoms [Key ''symptoms''] (map_of kvs ''symptoms'')) ?rest) = Inl e2"
    and i2: "set e1 \<subseteq> set e2"
    by auto
  have "symptomAnalysisSchema_parse (JObj kvs) = Inl e2"
    by (simp add: e2)
  with i1 i2 show ?thesis
    by (intro exI [of _ e2]) (simp add: subsetD)
qed

lemma field_object:
  "field body k = Some v \<Longrightarrow> \<exists>kvs. body = JObj kvs \<and> map_of kvs k = Some v"
  by (cases body) simp_all

text \<open>
  C7. A request whose symptoms list is empty is answered 400 "Invalid diagnosis data" with
  the list of issues, among them the one for the field symptoms; the server is left as it
  was: no call to the NLP service, no diagnosis row, no knowledge-base entry.
\<close>

theorem empty_symptoms_rejected:
  "field body ''symptoms'' = Some (JArr []) \<Longrightarrow>
     \<exists>errors. post_api_diagnose nlp envD envK body s
                 = (BadRequest ''Invalid diagnosis data'' errors, s) \<and>
       \<lparr>code = too_small, path = [Key ''symptoms''],
        message = Some ''At least one symptom is required''\<rparr> \<in> set errors \<and>
       nlp_calls (snd (post_api_diagnose nlp envD envK body s)) = nlp_calls s \<and>
       diagnoses (sqlite (snd (post_api_diagnose nlp envD envK body s)))
         = diagnoses (sqlite s) \<and>
       knowledge_base (sqlite (snd (post_api_diagnose nlp envD envK body s)))
         = knowledge_base (sqlite s)"
proof -
  assume "field body ''symptoms'' = Some (JArr [])"
  then obtain kvs where body: "body = JObj kvs" and "map_of kvs ''symptoms'' = Some (JArr [])"
    using field_object by blast
  from parse_empty_symptoms [OF this(2)] obtain errors where
    p: "symptomAnalysisSchema_parse (JObj kvs) = Inl errors" and
    i: "\<lparr>code = too_small, path = [Key ''symptoms''],
        message = Some ''At least one symptom is required''\<rparr> \<in> set errors"
    by (elim exE conjE)
  have "symptomAnalysisSchema_parse body = Inl errors"
    unfolding body by (rule p)
  then have "post_api_diagnose nlp envD envK body s
      = (BadRequest ''Invalid diagnosis data'' errors, s)"
    by (simp add: post_api_diagnose_def)
  with i show ?thesis
    by (intro exI [of _ errors]) simp
qed

theorem empty_symptoms_rejected_witness:
  "field empty_symptoms_body ''symptoms'' = Some (JArr []) \<and>
   post_api_diagnose example_nlp env_d1 env_k1 empty_symptoms_body example_server
     = (BadRequest ''Invalid diagnosis data''
          [\<lparr>code = too_small, path = [Key ''symptoms''],
            message = Some ''At least one symptom is required''\<rparr>],
        example_server)"
proof -
  have f: "field empty_symptoms_body ''symptoms'' = Some (JArr [])"
    by (simp add: empty_symptoms_body_def)
  have "symptomAnalysisSchema_parse empty_symptoms_body
      = Inl [\<lparr>code = too_small, path = [Key ''symptoms''],
               message = Some ''At least one symptom is required''\<rparr>]"
    by (simp add: empty_symptoms_body_def)
  then have "fst (post_api_diagnose example_nlp env_d1 env_k1 empty_symptoms_body example_server)
      = BadRequest ''Invalid diagnosis data''
          [\<lparr>code = too_small, path = [Key ''symptoms''],
            message = Some ''At least one symptom is required''\<rparr>]"
    by (simp add: post_api_diagnose_def)
  with f empty_symptoms_rejected [OF f, of example_nlp env_d1 env_k1 example_server]
  show ?thesis
    by auto
qed

lemma addKnowledgeEntry_rejected:
  "addKnowledgeEntry env db e = (Inl err, db') \<Longrightarrow> db' = db"
  by (auto simp: addKnowledgeEntry_def Let_def split: sum.splits)

lemma addKnowledgeEntry_stored:
  assumes "addKnowledgeEntry env db e = (Inr k, db')"
  shows "db' = db\<lparr>knowledge_base :=
                    knowledge_base db @ [addKnowledgeEntry_row (uuid env) (clock env) e]\<rparr>"
proof -
  from assms have "insert_knowledge (disk_fault env) db
      (addKnowledgeEntry_row (uuid env) (clock env) e) = Inr db'"
    by (auto simp: addKnowledgeEntry_def Let_def split: sum.splits)
  then show ?thesis
    by (auto simp: insert_knowledge_def split: if_splits)
qed

lemma addKnowledgeEntry_accepted:
  assumes "\<not> disk_fault env" and "uuid env \<notin> set (map kr_id (knowledge_base db))"
  shows "addKnowledgeEntry env db e
     = (Inr (addKnowledgeEntry_record (uuid env) (clock env) e),
        db\<lparr>knowledge_base :=
             knowledge_base db @ [addKnowledgeEntry_row (uuid env) (clock env) e]\<rparr>)"
  using assms
  by (simp add: addKnowledgeEntry_def insert_knowledge_def Let_def addKnowledgeEntry_row_def)

lemma diagnosis_fields_survive:
  "survives (ins_vitalSigns (diagnosis_fields v ai)) \<and>
   survives (ins_differentialDiagnoses (diagnosis_fields v ai)) \<and>
   survives (ins_treatmentProtocol (diagnosis_fields v ai))"
  by (simp add: diagnosis_fields_def vitalSigns_json_def protocol_json_def
      split: option.splits)

lemma rowToDiagnosis_handler_row:
  "rowToDiagnosis (createDiagnosis_row i t (diagnosis_fields v ai))
     = Inr (createDiagnosis_record i t (diagnosis_fields v ai))"
  using diagnosis_fields_survive [of v ai]
  by (intro rowToDiagnosis_createDiagnosis_row_survives) simp_all

lemma ageGroup_of_thresholds:
  "(a < 18 \<longrightarrow> ageGroup_of a = ''child'') \<and>
   (18 \<le> a \<and> a < 60 \<longrightarrow> ageGroup_of a = ''adult'') \<and>
   (60 \<le> a \<longrightarrow> ageGroup_of a = ''senior'')"
  by (simp add: ageGroup_of_def)

lemma ageGroup_of_boundaries:
  "ageGroup_of 17 = ''child'' \<and> ageGroup_of 18 = ''adult'' \<and>
   ageGroup_of 59 = ''adult'' \<and> ageGroup_of 60 = ''senior''"
  by (simp add: ageGroup_of_def)

lemma top_confidence_cases:
  "(\<forall>x xs. ai_differentialDiagnoses ai = Some (x # xs) \<longrightarrow> top_confidence ai = confidence x) \<and>
   (ai_differentialDiagnoses ai = None \<or> ai_differentialDiagnoses ai = Some [] \<longrightarrow>
      top_confidence ai = 100)"
  by (auto simp: top_confidence_def)

text \<open>What a 201 answer tells about the run of the handler.\<close>

lemma post_api_diagnose_created:
  assumes "post_api_diagnose nlp envD envK body s = (Created d, s')"
  shows "\<exists>v ai db1 k db2.
           symptomAnalysisSchema_parse body = Inr v \<and> nlp v = Some ai \<and>
           createDiagnosis envD (sqlite s) (diagnosis_fields v ai) = (Inr d, db1) \<and>
           addKnowledgeEntry envK db1 (knowledge_fields v ai) = (Inr k, db2) \<and>
           s' = s\<lparr>nlp_calls := nlp_calls s + 1, sqlite := db2\<rparr>"
proof (cases "symptomAnalysisSchema_parse body")
  case (Inl errors)
  with assms show ?thesis by (simp add: post_api_diagnose_def)
next
  case (Inr v)
  note v = this
  show ?thesis
  proof (cases "nlp v")
    case None
    with assms v show ?thesis by (simp add: post_api_diagnose_def)
  next
    case (Some ai)
    note ai = this
    obtain r1 db1 where c: "createDiagnosis envD (sqlite s) (diagnosis_fields v ai) = (r1, db1)"
      by (cases "createDiagnosis envD (sqlite s) (diagnosis_fields v ai)")
    show ?thesis
    proof (cases r1)
      case (Inl err)
      with assms v ai c show ?thesis by (simp add: post_api_diagnose_def)
    next
      case (Inr d1)
      note d1 = this
      obtain r2 db2 where k: "addKnowledgeEntry envK db1 (knowledge_fields v ai) = (r2, db2)"
        by (cases "addKnowledgeEntry envK db1 (knowledge_fields v ai)")
      show ?thesis
      proof (cases r2)
        case (Inl err)
        with assms v ai c d1 k show ?thesis by (simp add: post_api_diagnose_def)
      next
        case (Inr entry)
        with assms v ai c d1 k
        have "d1 = d" and "s' = s\<lparr>nlp_calls := nlp_calls s + 1, sqlite := db2\<rparr>"
          by (simp_all add: post_api_diagnose_def)
        with v ai c d1 k Inr show ?thesis
          by (intro exI [of _ v] exI [of _ ai] exI [of _ db1] exI [of _ entry] exI [of _ db2])
             simp
      qed
    qed
  qed
qed

text \<open>
  C5, as stated, fails on the code: when \<open>addKnowledgeEntry\<close> throws after
  \<open>createDiagnosis\<close> has stored its row, the diagnosis exists and no knowledge-base entry
  was added for it.
\<close>

theorem diagnosis_without_knowledge_counterexample:
  "map row_id (diagnoses (sqlite (snd
      (post_api_diagnose example_nlp env_d1 env_k_fault senior_body example_server)))) = [''d1''] \<and>
   knowledge_base (sqlite (snd
      (post_api_diagnose example_nlp env_d1 env_k_fault senior_body example_server))) = []"
  by (simp add: post_api_diagnose_def senior_body_def example_nlp_def example_ai_def
      example_server_def example_db_def example_patient_def env_d1_def env_k_fault_def
      createDiagnosis_def insert_diagnosis_def createDiagnosis_row_def
      addKnowledgeEntry_def insert_knowledge_def diagnosis_fields_def knowledge_fields_def
      languages_def Let_def)

text \<open>
  C5, amended. For every Diagnosis that \<open>createDiagnosis\<close> stored in the analyze flow,
  unless the following \<open>addKnowledgeEntry\<close> fails (the engine fails its INSERT, or its
  new id is already in the knowledge base), the endpoint answers 201 with that Diagnosis
  and exactly one knowledge-base row is added. The row carries the new id and timestamp,
  the request's symptoms and gender, the primary diagnosis, no outcome, the ageGroup
  "child" for an age below 18, "adult" from 18 and below 60, "senior" from 60, and the
  confidence of the first differential diagnosis, or 100 when the differential list is
  empty or absent.
\<close>

theorem stored_diagnosis_gets_knowledge_entry:
  "symptomAnalysisSchema_parse body = Inr v \<Longrightarrow> nlp v = Some ai \<Longrightarrow>
   createDiagnosis envD (sqlite s) (diagnosis_fields v ai) = (Inr d, db1) \<Longrightarrow>
   \<not> disk_fault envK \<Longrightarrow> uuid envK \<notin> set (map kr_id (knowledge_base (sqlite s))) \<Longrightarrow>
     \<exists>row k.
       post_api_diagnose nlp envD envK body s
         = (Created d,
            s\<lparr>nlp_calls := nlp_calls s + 1,
              sqlite := db1\<lparr>knowledge_base := knowledge_base (sqlite s) @ [k]\<rparr>\<rparr>) \<and>
       diagnoses db1 = diagnoses (sqlite s) @ [row] \<and> rowToDiagnosis row = Inr d \<and>
       knowledge_base db1 = knowledge_base (sqlite s) \<and>
       kr_id k = uuid envK \<and> kr_createdAt k = clock envK \<and>
       kr_symptoms k = Some (sa_symptoms v) \<and> kr_gender k = sa_patientGender v \<and>
       kr_diagnosis k = ai_primaryDiagnosis ai \<and> kr_outcome k = None \<and>
       (sa_patientAge v < 18 \<longrightarrow> kr_ageGroup k = ''child'') \<and>
       (18 \<le> sa_patientAge v \<and> sa_patientAge v < 60 \<longrightarrow> kr_ageGroup k = ''adult'') \<and>
       (60 \<le> sa_patientAge v \<longrightarrow> kr_ageGroup k = ''senior'') \<and>
       (\<forall>x xs. ai_differentialDiagnoses ai = Some (x # xs) \<longrightarrow> kr_confidence k = confidence x) \<and>
       (ai_differentialDiagnoses ai = None \<or> ai_differentialDiagnoses ai = Some [] \<longrightarrow>
          kr_confidence k = 100)"
proof -
  assume v: "symptomAnalysisSchema_parse body = Inr v" and ai: "nlp v = Some ai"
    and c: "createDiagnosis envD (sqlite s) (diagnosis_fields v ai) = (Inr d, db1)"
    and nofault: "\<not> disk_fault envK"
    and unused: "uuid envK \<notin> set (map kr_id (knowledge_base (sqlite s)))"
  define row where "row = createDiagnosis_row (uuid envD) (clock envD) (diagnosis_fields v ai)"
  define k where "k = addKnowledgeEntry_row (uuid envK) (clock envK) (knowledge_fields v ai)"
  define e where "e = addKnowledgeEntry_record (uuid envK) (clock envK) (knowledge_fields v ai)"
  from createDiagnosis_stored [OF c] have
    db1: "db1 = (sqlite s)\<lparr>diagnoses := diagnoses (sqlite s) @ [row]\<rparr>" and
    d: "d = createDiagnosis_record (uuid envD) (clock envD) (diagnosis_fields v ai)"
    by (simp_all add: row_def)
  have kb1: "knowledge_base db1 = knowledge_base (sqlite s)"
    by (simp add: db1)
  have rows: "diagnoses db1 = diagnoses (sqlite s) @ [row]"
    by (simp add: db1)
  have conv: "rowToDiagnosis row = Inr d"
    by (simp add: row_def d rowToDiagnosis_handler_row)
  from unused kb1 have "uuid envK \<notin> set (map kr_id (knowledge_base db1))"
    by simp
  from addKnowledgeEntry_accepted [OF nofault this, of "knowledge_fields v ai"]
  have a: "addKnowledgeEntry envK db1 (knowledge_fields v ai)
      = (Inr e, db1\<lparr>knowledge_base := knowledge_base (sqlite s) @ [k]\<rparr>)"
    by (simp add: e_def k_def kb1)
  have resp: "post_api_diagnose nlp envD envK body s
         = (Created d,
            s\<lparr>nlp_calls := nlp_calls s + 1,
              sqlite := db1\<lparr>knowledge_base := knowledge_base (sqlite s) @ [k]\<rparr>\<rparr>)"
    using v ai c a by (simp add: post_api_diagnose_def)
  have copied: "kr_id k = uuid envK \<and> kr_createdAt k = clock envK \<and>
      kr_symptoms k = Some (sa_symptoms v) \<and> kr_gender k = sa_patientGender v \<and>
      kr_diagnosis k = ai_primaryDiagnosis ai \<and> kr_outcome k = None"
    by (simp add: k_def addKnowledgeEntry_row_def knowledge_fields_def)
  have grp: "kr_ageGroup k = ageGroup_of (sa_patientAge v)"
    by (simp add: k_def addKnowledgeEntry_row_def knowledge_fields_def)
  have conf: "kr_confidence k = top_confidence ai"
    by (simp add: k_def addKnowledgeEntry_row_def knowledge_fields_def)
  show ?thesis
    apply (intro exI [of _ row] exI [of _ k])
    apply (simp only: resp rows conv kb1 copied grp conf)
    using ageGroup_of_thresholds [of "sa_patientAge v"] top_confidence_cases [of ai]
    apply simp
    done
qed

theorem stored_diagnosis_gets_knowledge_entry_witness:
  "symptomAnalysisSchema_parse example_body = Inr example_request \<and>
   example_nlp example_request = Some example_ai \<and>
   fst (createDiagnosis env_d1 (sqlite example_server)
          (diagnosis_fields example_request example_ai)) = Inr example_stored \<and>
   \<not> disk_fault env_k1 \<and>
   uuid env_k1 \<notin> set (map kr_id (knowledge_base (sqlite example_server))) \<and>
   fst (post_api_diagnose example_nlp env_d1 env_k1 example_body example_server)
     = Created example_stored \<and>
   map kr_id (knowledge_base (sqlite (snd
     (post_api_diagnose example_nlp env_d1 env_k1 example_body example_server)))) = [''k1''] \<and>
   map kr_ageGroup (knowledge_base (sqlite (snd
     (post_api_diagnose example_nlp env_d1 env_k1 example_body example_server)))) = [''child''] \<and>
   map kr_confidence (knowledge_base (sqlite (snd
     (post_api_diagnose example_nlp env_d1 env_k1 example_body example_server)))) = [80]"
proof -
  define db1 where "db1 = snd (createDiagnosis env_d1 (sqlite example_server)
          (diagnosis_fields example_request example_ai))"
  have p: "symptomAnalysisSchema_parse example_body = Inr example_request"
    by (simp add: example_body_def example_request_def languages_def)
  have n: "example_nlp example_request = Some example_ai"
    by (simp add: example_nlp_def)
  have c1: "fst (createDiagnosis env_d1 (sqlite example_server)
          (diagnosis_fields example_request example_ai)) = Inr example_stored"
    by (simp add: createDiagnosis_def insert_diagnosis_def Let_def env_d1_def example_server_def
        example_db_def example_patient_def createDiagnosis_row_def createDiagnosis_record_def
        diagnosis_fields_def example_request_def example_ai_def example_stored_def
        example_diagnosis_def differential_json_def)
  then have c: "createDiagnosis env_d1 (sqlite example_server)
          (diagnosis_fields example_request example_ai) = (Inr example_stored, db1)"
    by (simp add: db1_def prod_eq_iff)
  have f: "\<not> disk_fault env_k1"
    by (simp add: env_k1_def)
  have u: "uuid env_k1 \<notin> set (map kr_id (knowledge_base (sqlite example_server)))"
    by (simp add: example_server_def example_db_def)
  from stored_diagnosis_gets_knowledge_entry [where nlp = example_nlp, OF p n c f u]
  obtain row k where
    run: "post_api_diagnose example_nlp env_d1 env_k1 example_body example_server
         = (Created example_stored,
            example_server\<lparr>nlp_calls := nlp_calls example_server + 1,
              sqlite := db1\<lparr>knowledge_base := knowledge_base (sqlite example_server) @ [k]\<rparr>\<rparr>)"
    and kid: "kr_id k = uuid env_k1"
    and child: "sa_patientAge example_request < 18 \<longrightarrow> kr_ageGroup k = ''child''"
    and conf: "\<forall>x xs. ai_differentialDiagnoses example_ai = Some (x # xs) \<longrightarrow>
        kr_confidence k = confidence x"
    by (elim exE conjE)
  from conf have c80: "kr_confidence k = 80" by (simp add: example_ai_def)
  from child have ch: "kr_ageGroup k = ''child''" by (simp add: example_request_def)
  from kid have k1: "kr_id k = ''k1''" by (simp add: env_k1_def)
  have kbs: "knowledge_base (sqlite (snd
     (post_api_diagnose example_nlp env_d1 env_k1 example_body example_server))) = [k]"
    unfolding run by (simp add: example_server_def example_db_def)
  have resp: "fst (post_api_diagnose example_nlp env_d1 env_k1 example_body example_server)
     = Created example_stored"
    unfolding run by simp
  from p n c1 f u resp show ?thesis
    unfolding kbs by (simp add: k1 ch c80)
qed

text \<open>
  C4, as stated, fails on the code: the call of \<open>addKnowledgeEntry\<close> stands inside the
  one \<open>try\<close> block of the handler, so its failure is answered 500 and the stored
  diagnosis is not returned, although its row stays in the table.
\<close>

theorem knowledge_failure_counterexample:
  "fst (createDiagnosis env_d1 (sqlite example_server) (diagnosis_fields example_request example_ai))
     = Inr example_stored \<and>
   fst (addKnowledgeEntry env_k_fault
          (snd (createDiagnosis env_d1 (sqlite example_server)
                  (diagnosis_fields example_request example_ai)))
          (knowledge_fields example_request example_ai)) = Inl SQLITE_IOERR \<and>
   fst (post_api_diagnose example_nlp env_d1 env_k_fault example_body example_server)
     = InternalError ''NLP service unavailable'' \<and>
   map row_id (diagnoses (sqlite (snd
      (post_api_diagnose example_nlp env_d1 env_k_fault example_body example_server)))) = [''d1'']"
  by (simp add: post_api_diagnose_def example_body_def example_nlp_def example_ai_def
      example_request_def example_server_def example_db_def example_patient_def env_d1_def
      env_k_fault_def createDiagnosis_def insert_diagnosis_def createDiagnosis_row_def
      createDiagnosis_record_def addKnowledgeEntry_def insert_knowledge_def
      diagnosis_fields_def knowledge_fields_def example_diagnosis_def example_stored_def
      differential_json_def languages_def Let_def)

text \<open>
  C4, amended. When \<open>createDiagnosis\<close> succeeds and the following \<open>addKnowledgeEntry\<close>
  fails, the analyze endpoint answers 500 "NLP service unavailable"; the diagnosis row is
  not rolled back (it is the last row of the table and \<open>getDiagnosis\<close> reads it back), and
  the knowledge base is as it was.
\<close>

theorem knowledge_failure_keeps_diagnosis:
  "symptomAnalysisSchema_parse body = Inr v \<Longrightarrow> nlp v = Some ai \<Longrightarrow>
   createDiagnosis envD (sqlite s) (diagnosis_fields v ai) = (Inr d, db1) \<Longrightarrow>
   addKnowledgeEntry envK db1 (knowledge_fields v ai) = (Inl err, db2) \<Longrightarrow>
     post_api_diagnose nlp envD envK body s
       = (InternalError ''NLP service unavailable'',
          s\<lparr>nlp_calls := nlp_calls s + 1, sqlite := db1\<rparr>) \<and>
     (\<exists>row. diagnoses db1 = diagnoses (sqlite s) @ [row] \<and> rowToDiagnosis row = Inr d) \<and>
     getDiagnosis db1 (d_id d) = Inr (Some d) \<and>
     knowledge_base db1 = knowledge_base (sqlite s)"
proof -
  assume v: "symptomAnalysisSchema_parse body = Inr v" and ai: "nlp v = Some ai"
    and c: "createDiagnosis envD (sqlite s) (diagnosis_fields v ai) = (Inr d, db1)"
    and a: "addKnowledgeEntry envK db1 (knowledge_fields v ai) = (Inl err, db2)"
  define row where "row = createDiagnosis_row (uuid envD) (clock envD) (diagnosis_fields v ai)"
  from addKnowledgeEntry_rejected [OF a] have db2: "db2 = db1" .
  from createDiagnosis_stored [OF c] have
    db1: "db1 = (sqlite s)\<lparr>diagnoses := diagnoses (sqlite s) @ [row]\<rparr>" and
    d: "d = createDiagnosis_record (uuid envD) (clock envD) (diagnosis_fields v ai)" and
    fresh: "uuid envD \<notin> set (map row_id (diagnoses (sqlite s)))"
    by (simp_all add: row_def)
  have conv: "rowToDiagnosis row = Inr d"
    by (simp add: row_def d rowToDiagnosis_handler_row)
  have ids: "row_id row = uuid envD" "d_id d = uuid envD"
    by (simp_all add: row_def d createDiagnosis_row_def createDiagnosis_record_def)
  have resp: "post_api_diagnose nlp envD envK body s
       = (InternalError ''NLP service unavailable'',
          s\<lparr>nlp_calls := nlp_calls s + 1, sqlite := db1\<rparr>)"
    using v ai c a db2 by (simp add: post_api_diagnose_def)
  have rows: "\<exists>row. diagnoses db1 = diagnoses (sqlite s) @ [row] \<and> rowToDiagnosis row = Inr d"
    using conv by (intro exI [of _ row]) (simp add: db1)
  have again: "getDiagnosis db1 (d_id d) = Inr (Some d)"
    using getDiagnosis_appended [of row "sqlite s"] fresh ids conv by (simp add: db1)
  have kb: "knowledge_base db1 = knowledge_base (sqlite s)"
    by (simp add: db1)
  from resp rows again kb show ?thesis
    by (intro conjI)
qed

theorem knowledge_failure_keeps_diagnosis_witness:
  "symptomAnalysisSchema_parse senior_body = Inr (example_request\<lparr>sa_patientAge := 60\<rparr>) \<and>
   fst (post_api_diagnose example_nlp env_d1 env_k_fault senior_body example_server)
     = InternalError ''NLP service unavailable'' \<and>
   nlp_calls (snd (post_api_diagnose example_nlp env_d1 env_k_fault senior_body example_server))
     = 1 \<and>
   getAllDiagnoses (sqlite (snd
     (post_api_diagnose example_nlp env_d1 env_k_fault senior_body example_server)))
     = Inr [example_stored]"
proof -
  define v where "v = example_request\<lparr>sa_patientAge := 60\<rparr>"
  define ins where "ins = diagnosis_fields v example_ai"
  define d where "d = createDiagnosis_record ''d1'' 1000 ins"
  define db1 where "db1 = example_db\<lparr>diagnoses := [createDiagnosis_row ''d1'' 1000 ins]\<rparr>"
  have p: "symptomAnalysisSchema_parse senior_body = Inr v"
    by (simp add: senior_body_def example_request_def languages_def v_def)
  have n: "example_nlp v = Some example_ai"
    by (simp add: example_nlp_def)
  have c: "createDiagnosis env_d1 (sqlite example_server) (diagnosis_fields v example_ai)
      = (Inr d, db1)"
    by (simp add: createDiagnosis_def insert_diagnosis_def Let_def env_d1_def example_server_def
        example_db_def example_patient_def d_def db1_def ins_def createDiagnosis_row_def
        diagnosis_fields_def v_def example_request_def)
  have a: "addKnowledgeEntry env_k_fault db1 (knowledge_fields v example_ai)
      = (Inl SQLITE_IOERR, db1)"
    by (simp add: addKnowledgeEntry_def insert_knowledge_def Let_def env_k_fault_def)
  from knowledge_failure_keeps_diagnosis [where nlp = example_nlp, OF p n c a]
  have run: "post_api_diagnose example_nlp env_d1 env_k_fault senior_body example_server
       = (InternalError ''NLP service unavailable'',
          example_server\<lparr>nlp_calls := nlp_calls example_server + 1, sqlite := db1\<rparr>)"
    by (elim conjE)
  have "rowToDiagnosis (createDiagnosis_row ''d1'' 1000 ins) = Inr d"
    unfolding d_def ins_def by (rule rowToDiagnosis_handler_row)
  moreover have "d = example_stored"
    by (simp add: d_def ins_def createDiagnosis_record_def diagnosis_fields_def v_def
        example_request_def example_ai_def example_stored_def example_diagnosis_def
        differential_json_def)
  ultimately have "getAllDiagnoses db1 = Inr [example_stored]"
    by (simp add: getAllDiagnoses_def newest_first_def db1_def)
  with p run show ?thesis
    by (simp add: v_def example_server_def)
qed

section \<open>Properties of the snapshot store\<close>

lemma keys_distinct:
  "CACHE_KEYS_PATIENTS \<noteq> CACHE_KEYS_DIAGNOSES \<and> CACHE_KEYS_PATIENTS \<noteq> CACHE_KEYS_LAST_SYNC \<and>
   CACHE_KEYS_DIAGNOSES \<noteq> CACHE_KEYS_LAST_SYNC \<and>
   CACHE_KEYS_DIAGNOSES \<noteq> CACHE_KEYS_PATIENTS \<and> CACHE_KEYS_LAST_SYNC \<noteq> CACHE_KEYS_PATIENTS \<and>
   CACHE_KEYS_LAST_SYNC \<noteq> CACHE_KEYS_DIAGNOSES"
  by (simp add: CACHE_KEYS_PATIENTS_def CACHE_KEYS_DIAGNOSES_def CACHE_KEYS_LAST_SYNC_def)

lemma get_after_save:
  assumes "accepts key (Stringified (JArr items))" and "key \<noteq> CACHE_KEYS_LAST_SYNC"
  shows "get key (save key accepts now ls items) = JArr items"
  using assms by (simp add: get_def save_def setItem_def)

lemma last_sync_after_save:
  assumes "accepts key (Stringified (JArr items))"
    and "accepts CACHE_KEYS_LAST_SYNC (IsoString now)"
  shows "save key accepts now ls items CACHE_KEYS_LAST_SYNC = Some (IsoString now)"
  using assms by (simp add: save_def setItem_def)

lemma other_key_after_save:
  assumes "other \<noteq> key" and "other \<noteq> CACHE_KEYS_LAST_SYNC"
  shows "get other (save key accepts now ls items) = get other ls"
  using assms by (simp add: get_def save_def setItem_def)

lemma save_refused:
  "\<not> accepts key (Stringified (JArr items)) \<Longrightarrow> save key accepts now ls items = ls"
  by (simp add: save_def setItem_def)

lemma clearAll_removes:
  "clearAll ls CACHE_KEYS_PATIENTS = None \<and> clearAll ls CACHE_KEYS_DIAGNOSES = None \<and>
   clearAll ls CACHE_KEYS_LAST_SYNC = None"
  by (simp add: clearAll_def removeItem_def)

text \<open>
  C8, as stated, fails on the code: \<open>save\<close> swallows the exception of a refused write, so
  in a browser that refuses the write (quota exceeded, storage disabled) reading back
  after saving a list does not return the list.
\<close>

theorem save_refused_counterexample:
  "getPatients (savePatients storage_full 5 empty_storage example_items) = JNull \<and>
   getPatients (savePatients storage_full 5 empty_storage example_items) \<noteq> JArr example_items"
  by (simp add: getPatients_def savePatients_def get_def save_def setItem_def
      storage_full_def empty_storage_def)

text \<open>
  C8, amended. For every list of items and every earlier content of the store: if the
  browser accepts the write of the collection, reading the collection back after saving
  returns the list (the earlier value is overwritten, nothing is merged) and the other
  collection is untouched; if it also accepts the write of the timestamp, last-sync is the
  time of the save; if it refuses the write of the collection, the store is left as it was.
  After \<open>clearAll\<close>, reading either collection returns \<open>null\<close> and last-sync is gone.
\<close>

theorem snapshot_store_roundtrip:
  "(accepts CACHE_KEYS_PATIENTS (Stringified (JArr items)) \<longrightarrow>
      getPatients (savePatients accepts now ls items) = JArr items \<and>
      getDiagnoses (savePatients accepts now ls items) = getDiagnoses ls \<and>
      (accepts CACHE_KEYS_LAST_SYNC (IsoString now) \<longrightarrow>
         savePatients accepts now ls items CACHE_KEYS_LAST_SYNC = Some (IsoString now))) \<and>
   (accepts CACHE_KEYS_DIAGNOSES (Stringified (JArr items)) \<longrightarrow>
      getDiagnoses (saveDiagnoses accepts now ls items) = JArr items \<and>
      getPatients (saveDiagnoses accepts now ls items) = getPatients ls \<and>
      (accepts CACHE_KEYS_LAST_SYNC (IsoString now) \<longrightarrow>
         saveDiagnoses accepts now ls items CACHE_KEYS_LAST_SYNC = Some (IsoString now))) \<and>
   (\<not> accepts CACHE_KEYS_PATIENTS (Stringified (JArr items)) \<longrightarrow>
      savePatients accepts now ls items = ls) \<and>
   (\<not> accepts CACHE_KEYS_DIAGNOSES (Stringified (JArr items)) \<longrightarrow>
      saveDiagnoses accepts now ls items = ls) \<and>
   getPatients (clearAll ls) = JNull \<and> getDiagnoses (clearAll ls) = JNull \<and>
   clearAll ls CACHE_KEYS_LAST_SYNC = None"
proof (intro conjI impI)
  assume p: "accepts CACHE_KEYS_PATIENTS (Stringified (JArr items))"
  show "getPatients (savePatients accepts now ls items) = JArr items"
    using p keys_distinct by (simp add: getPatients_def savePatients_def get_after_save)
  show "getDiagnoses (savePatients accepts now ls items) = getDiagnoses ls"
    using keys_distinct by (simp add: getDiagnoses_def savePatients_def other_key_after_save)
  assume "accepts CACHE_KEYS_LAST_SYNC (IsoString now)"
  with p show "savePatients accepts now ls items CACHE_KEYS_LAST_SYNC = Some (IsoString now)"
    by (simp add: savePatients_def last_sync_after_save)
next
  assume d: "accepts CACHE_KEYS_DIAGNOSES (Stringified (JArr items))"
  show "getDiagnoses (saveDiagnoses accepts now ls items) = JArr items"
    using d keys_distinct by (simp add: getDiagnoses_def saveDiagnoses_def get_after_save)
  show "getPatients (saveDiagnoses accepts now ls items) = getPatients ls"
    using keys_distinct by (simp add: getPatients_def saveDiagnoses_def other_key_after_save)
  assume "accepts CACHE_KEYS_LAST_SYNC (IsoString now)"
  with d show "saveDiagnoses accepts now ls items CACHE_KEYS_LAST_SYNC = Some (IsoString now)"
    by (simp add: saveDiagnoses_def last_sync_after_save)
next
  assume "\<not> accepts CACHE_KEYS_PATIENTS (Stringified (JArr items))"
  then show "savePatients accepts now ls items = ls"
    by (simp add: savePatients_def save_refused)
next
  assume "\<not> accepts CACHE_KEYS_DIAGNOSES (Stringified (JArr items))"
  then show "saveDiagnoses accepts now ls items = ls"
    by (simp add: saveDiagnoses_def save_refused)
next
  show "getPatients (clearAll ls) = JNull"
    by (simp add: getPatients_def get_def clearAll_removes)
  show "getDiagnoses (clearAll ls) = JNull"
    by (simp add: getDiagnoses_def get_def clearAll_removes)
  show "clearAll ls CACHE_KEYS_LAST_SYNC = None"
    by (simp add: clearAll_removes)
qed

theorem snapshot_store_roundtrip_witness:
  "storage_free CACHE_KEYS_PATIENTS (Stringified (JArr example_items)) \<and>
   storage_free CACHE_KEYS_LAST_SYNC (IsoString 5) \<and>
   getPatients (savePatients storage_free 5 empty_storage example_items) = JArr example_items \<and>
   savePatients storage_free 5 empty_storage example_items CACHE_KEYS_LAST_SYNC
     = Some (IsoString 5) \<and>
   getPatients (clearAll (savePatients storage_free 5 empty_storage example_items)) = JNull"
  using snapshot_store_roundtrip [of storage_free example_items 5 empty_storage]
    snapshot_store_roundtrip
      [of storage_free example_items 5 "savePatients storage_free 5 empty_storage example_items"]
  by (simp add: storage_free_def)

end
